theory Spec2Isabelle
  imports
    Complex_Main
    "HOL-Library.AList"
    "HOL-Library.Sublist"
    "HOL-Library.Char_ord"
    "HOL-Library.List_Lexorder"
    "HOL-Library.Multiset"
begin

section \<open>Usage signals for the CRM enrichment: data model\<close>

text \<open>
  The embedding follows \<^verbatim>\<open>ee/billing/salesforce_enrichment/usage_signals.py\<close>.
  Python's unbounded integers are \<^typ>\<open>int\<close>. Python's \<^verbatim>\<open>float\<close> results (true
  division) are modelled by exact \<^typ>\<open>real\<close> arithmetic: the rounding of IEEE doubles is
  not part of the model. \<^verbatim>\<open>None\<close> is \<^const>\<open>None\<close> of an option type. Timestamps
  (\<^verbatim>\<open>datetime\<close>) and durations (\<^verbatim>\<open>timedelta\<close>) are integers counting microseconds,
  the resolution of both Python types.
\<close>

record TeamUsageSignals =
  team_id :: int
  active_persons :: int
  active_distinct_ids :: int
  session_count :: int
  total_events :: int
  has_feature_flags :: bool
  has_surveys :: bool
  has_error_tracking :: bool
  has_ai :: bool

record OrgAggregatedSignals =
  active_users :: int
  sessions :: int
  total_events :: int
  events_per_session :: "real option"
  products_activated :: "string list"

record UsageSignals =
  active_users_7d :: int
  sessions_7d :: int
  events_per_session_7d :: "real option"
  insights_per_user_7d :: "real option"
  dashboards_per_user_7d :: "real option"
  products_activated_7d :: "string list"
  active_users_30d :: int
  sessions_30d :: int
  events_per_session_30d :: "real option"
  insights_per_user_30d :: "real option"
  dashboards_per_user_30d :: "real option"
  products_activated_30d :: "string list"
  active_users_7d_momentum :: "real option"
  sessions_7d_momentum :: "real option"
  events_per_session_7d_momentum :: "real option"
  active_users_30d_momentum :: "real option"
  sessions_30d_momentum :: "real option"
  events_per_session_30d_momentum :: "real option"
  days_since_last_login :: "int option"

text \<open>The dataclass defaults: \<^verbatim>\<open>OrgAggregatedSignals()\<close> and \<^verbatim>\<open>UsageSignals()\<close>.\<close>

definition OrgAggregatedSignals_default :: OrgAggregatedSignals where
  "OrgAggregatedSignals_default =
     \<lparr>active_users = 0, sessions = 0, total_events = 0,
      events_per_session = None, products_activated = []\<rparr>"

definition UsageSignals_default :: UsageSignals where
  "UsageSignals_default =
     \<lparr>active_users_7d = 0, sessions_7d = 0, events_per_session_7d = None,
      insights_per_user_7d = None, dashboards_per_user_7d = None,
      products_activated_7d = [],
      active_users_30d = 0, sessions_30d = 0, events_per_session_30d = None,
      insights_per_user_30d = None, dashboards_per_user_30d = None,
      products_activated_30d = [],
      active_users_7d_momentum = None, sessions_7d_momentum = None,
      events_per_session_7d_momentum = None,
      active_users_30d_momentum = None, sessions_30d_momentum = None,
      events_per_session_30d_momentum = None,
      days_since_last_login = None\<rparr>"

text \<open>
  \<^verbatim>\<open>PRODUCT_FLAGS\<close>: a dict literal, iterated in insertion order, from the attribute
  (here its selector) to the product's output name.
\<close>

definition PRODUCT_FLAGS :: "((TeamUsageSignals \<Rightarrow> bool) \<times> string) list" where
  "PRODUCT_FLAGS =
     [(has_feature_flags, ''feature_flags''),
      (has_surveys, ''surveys''),
      (has_error_tracking, ''error_tracking''),
      (has_ai, ''ai'')]"

section \<open>Pure operations\<close>

definition calc_momentum :: "real \<Rightarrow> real \<Rightarrow> real option" where
  "calc_momentum current previous =
     (if previous = 0 then None
      else Some (((current - previous) / previous) * 100))"

definition aggregate_teams_to_org :: "TeamUsageSignals list \<Rightarrow> OrgAggregatedSignals" where
  "aggregate_teams_to_org team_signals =
     (if team_signals = [] then OrgAggregatedSignals_default
      else
        let total_active_users = sum_list (map active_persons team_signals);
            total_sessions = sum_list (map session_count team_signals);
            total_events = sum_list (map TeamUsageSignals.total_events team_signals);
            events_per_session =
              (if total_sessions > 0
               then Some (real_of_int total_events / real_of_int total_sessions)
               else None);
            products =
              [product_name. (attr, product_name) \<leftarrow> PRODUCT_FLAGS,
                             list_ex attr team_signals]
        in \<lparr>active_users = total_active_users,
            sessions = total_sessions,
            total_events = total_events,
            events_per_session = events_per_session,
            products_activated = products\<rparr>)"


definition per_user_metric :: "int \<Rightarrow> int \<Rightarrow> real option" where
  \<comment> \<open>\<^verbatim>\<open>_per_user_metric\<close>\<close>
  "per_user_metric count' active_users' =
     (if active_users' > 0 then Some (real_of_int count' / real_of_int active_users') else None)"

definition calc_eps_momentum :: "OrgAggregatedSignals \<Rightarrow> OrgAggregatedSignals \<Rightarrow> real option" where
  \<comment> \<open>\<^verbatim>\<open>_calc_eps_momentum\<close>\<close>
  "calc_eps_momentum current previous =
     (case (events_per_session current, events_per_session previous) of
        (Some c, Some p) \<Rightarrow> calc_momentum c p
      | _ \<Rightarrow> None)"

text \<open>
  Python dicts are association lists with distinct keys in insertion order:
  \<^const>\<open>AList.update\<close> is \<^verbatim>\<open>d[k] = v\<close> (an existing key keeps its place),
  \<^const>\<open>map_of\<close> is the lookup. \<open>dict_of\<close> is the dict comprehension
  \<^verbatim>\<open>{k: v for ...}\<close>; \<open>dict_get\<close> is \<^verbatim>\<open>d.get(k, default)\<close>.
\<close>

definition dict_of :: "('k \<times> 'v) list \<Rightarrow> ('k \<times> 'v) list" where
  "dict_of kvs = fold (\<lambda>(k, v) d. AList.update k v d) kvs []"

definition dict_get :: "('k \<times> 'v) list \<Rightarrow> 'k \<Rightarrow> 'v \<Rightarrow> 'v" where
  "dict_get d k dflt = (case map_of d k of None \<Rightarrow> dflt | Some v \<Rightarrow> v)"

definition get_products_with_recordings ::
    "string list \<Rightarrow> int list \<Rightarrow> (int \<times> int) list \<Rightarrow> string list" where
  \<comment> \<open>\<^verbatim>\<open>_get_products_with_recordings\<close>\<close>
  "get_products_with_recordings products team_ids recordings =
     (let has_recordings = list_ex (\<lambda>tid. dict_get recordings tid 0 > 0) team_ids
      in if has_recordings \<and> ''recordings'' \<notin> set products
         then products @ [''recordings'']
         else products)"

section \<open>The external stores and the effects of a call\<close>

text \<open>
  The stores are read, never written, by this module; a call sees one snapshot of them.
  The relational tables hold the columns the ORM queries touch, with the joins the
  queries make already taken (\<^verbatim>\<open>user__last_login\<close>, \<^verbatim>\<open>team__organization_id\<close>);
  organization ids are the strings \<^verbatim>\<open>str(organization_id)\<close> yields.
  The event store's answer to the usage query is external (the rows \<^verbatim>\<open>sync_execute\<close>
  returns for the given parameters); the session-replay table is a list of rows, and the
  recordings query is evaluated on it.
\<close>

type_synonym usage_row = "int \<times> int \<times> int \<times> int \<times> int \<times> int \<times> int \<times> int \<times> int"

record stores =
  team_rows :: "(int \<times> string) list"
  membership_rows :: "(string \<times> int option) list"
  dashboard_rows :: "(string \<times> int \<times> bool) list"
  insight_rows :: "(string \<times> int \<times> bool) list"
  events_result :: "int list \<Rightarrow> int \<Rightarrow> int \<Rightarrow> usage_row list"
  session_replay_events :: "(int \<times> string \<times> int) list"

datatype model = Dashboard | Insight

datatype query =
    TeamQuery "string list"
  | LoginQuery "string list"
  | ModelCountQuery model "string list" int int
  | UsageQuery "int list" int int
  | RecordingsQuery "int list" int int int

text \<open>
  What a call does beyond returning: it reads the clock (\<^verbatim>\<open>datetime.now\<close>; the
  \<open>k\<close>-th reading since the world began is \<open>clock w k\<close>) and it sends queries,
  recorded oldest first with their parameters.
\<close>

record world =
  clock :: "nat \<Rightarrow> int"
  clock_reads :: nat
  issued :: "query list"

definition datetime_now :: "world \<Rightarrow> int \<times> world" where
  "datetime_now w = (clock w (clock_reads w), w\<lparr>clock_reads := Suc (clock_reads w)\<rparr>)"

definition issue :: "query \<Rightarrow> world \<Rightarrow> world" where
  "issue q w = w\<lparr>issued := issued w @ [q]\<rparr>"

definition timedelta_days :: "int \<Rightarrow> int" where
  \<comment> \<open>\<^verbatim>\<open>timedelta(days=d)\<close> in microseconds\<close>
  "timedelta_days d = d * 86400000000"

definition days :: "int \<Rightarrow> int" where
  \<comment> \<open>\<^verbatim>\<open>.days\<close> of a timedelta: the floor of the duration in days\<close>
  "days delta = delta div 86400000000"

definition py_bool :: "int \<Rightarrow> bool" where
  "py_bool x = (x \<noteq> 0)"

subsection \<open>The queries\<close>

definition sql_max :: "int option list \<Rightarrow> int option" where
  \<comment> \<open>\<^verbatim>\<open>Max\<close> of a nullable column over a group: nulls are skipped\<close>
  "sql_max xs =
     fold (\<lambda>x acc. case (x, acc) of
                      (None, _) \<Rightarrow> acc
                    | (Some a, None) \<Rightarrow> Some a
                    | (Some a, Some b) \<Rightarrow> Some (max a b)) xs None"

definition login_query :: "stores \<Rightarrow> string list \<Rightarrow> (string \<times> int option) list" where
  \<comment> \<open>\<^verbatim>\<open>OrganizationMembership.objects.filter(organization_id__in=org_ids)
       .values("organization_id").annotate(most_recent_login=Max("user__last_login"))\<close>\<close>
  "login_query st org_ids =
     (let rows = filter (\<lambda>(org, login). org \<in> set org_ids) (membership_rows st)
      in map (\<lambda>org. (org, sql_max [login. (org', login) \<leftarrow> rows, org' = org]))
           (remdups (map fst rows)))"

definition model_rows :: "stores \<Rightarrow> model \<Rightarrow> (string \<times> int \<times> bool) list" where
  "model_rows st m = (case m of Dashboard \<Rightarrow> dashboard_rows st | Insight \<Rightarrow> insight_rows st)"

definition model_count_query ::
    "stores \<Rightarrow> model \<Rightarrow> string list \<Rightarrow> int \<Rightarrow> int \<Rightarrow> (string \<times> int) list" where
  \<comment> \<open>\<^verbatim>\<open>model.objects.filter(team__organization_id__in=org_ids, created_at__gte=period_start,
       created_at__lt=period_end, deleted=False)
       .values("team__organization_id").annotate(count=Count("id"))\<close>\<close>
  "model_count_query st m org_ids period_start period_end =
     (let rows = filter (\<lambda>(org, created_at, deleted).
                    org \<in> set org_ids \<and> created_at \<ge> period_start \<and>
                    created_at < period_end \<and> \<not> deleted) (model_rows st m)
      in map (\<lambda>org. (org, int (length (filter (\<lambda>r. fst r = org) rows))))
           (remdups (map fst rows)))"

definition team_query :: "stores \<Rightarrow> string list \<Rightarrow> (int \<times> string) list" where
  \<comment> \<open>\<^verbatim>\<open>Team.objects.filter(organization_id__in=org_ids).values("id", "organization_id")\<close>\<close>
  "team_query st org_ids = filter (\<lambda>(tid, org). org \<in> set org_ids) (team_rows st)"

text \<open>
  The recordings query. The inner select keeps the rows of the given teams whose
  \<^verbatim>\<open>min_first_timestamp\<close> lies in \<open>[previous_begin, end)\<close> and takes, for each
  (team, session), the least of them as \<^verbatim>\<open>first_ts\<close>; the outer select counts per team
  the sessions with \<open>begin \<le> first_ts < end\<close> and keeps the teams whose count is positive.
\<close>

definition recordings_inner ::
    "(int \<times> string \<times> int) list \<Rightarrow> int list \<Rightarrow> int \<Rightarrow> int \<Rightarrow> (int \<times> string \<times> int) list" where
  "recordings_inner table team_ids previous_begin end' =
     (let rows = filter (\<lambda>(t, s, ts). t \<in> set team_ids \<and> ts \<ge> previous_begin \<and> ts < end') table
      in map (\<lambda>(t, s). (t, s, Min (set [ts. (t', s', ts) \<leftarrow> rows, t' = t \<and> s' = s])))
           (remdups (map (\<lambda>(t, s, ts). (t, s)) rows)))"

definition recordings_query ::
    "(int \<times> string \<times> int) list \<Rightarrow> int list \<Rightarrow> int \<Rightarrow> int \<Rightarrow> int \<Rightarrow> (int \<times> int) list" where
  "recordings_query table team_ids previous_begin begin end' =
     (let inner = recordings_inner table team_ids previous_begin end'
      in filter (\<lambda>(t, count). count > 0)
           (map (\<lambda>t. (t, int (length (filter (\<lambda>(t', s, first_ts).
                                  t' = t \<and> first_ts \<ge> begin \<and> first_ts < end') inner))))
              (remdups (map fst inner))))"

subsection \<open>The fetch functions\<close>

definition get_org_login_recency ::
    "stores \<Rightarrow> string list \<Rightarrow> world \<Rightarrow> (string \<times> int option) list \<times> world" where
  "get_org_login_recency st org_ids w =
     (if org_ids = [] then ([], w)
      else
        let (now, w) = datetime_now w;
            org_logins = login_query st org_ids;
            w = issue (LoginQuery org_ids) w
        in (dict_of (map (\<lambda>(org, most_recent_login).
                       (org, case most_recent_login of
                               Some t \<Rightarrow> Some (days (now - t))
                             | None \<Rightarrow> None)) org_logins), w))"

definition get_org_model_count ::
    "stores \<Rightarrow> model \<Rightarrow> string list \<Rightarrow> int \<Rightarrow> int \<Rightarrow> world \<Rightarrow> (string \<times> int) list \<times> world" where
  \<comment> \<open>\<^verbatim>\<open>_get_org_model_count\<close>\<close>
  "get_org_model_count st m org_ids period_start period_end w =
     (if org_ids = [] then ([], w)
      else
        let counts = model_count_query st m org_ids period_start period_end;
            w = issue (ModelCountQuery m org_ids period_start period_end) w
        in (dict_of counts, w))"

definition get_org_dashboards_count ::
    "stores \<Rightarrow> string list \<Rightarrow> int \<Rightarrow> int \<Rightarrow> world \<Rightarrow> (string \<times> int) list \<times> world" where
  "get_org_dashboards_count st org_ids period_start period_end w =
     get_org_model_count st Dashboard org_ids period_start period_end w"

definition get_org_insights_count ::
    "stores \<Rightarrow> string list \<Rightarrow> int \<Rightarrow> int \<Rightarrow> world \<Rightarrow> (string \<times> int) list \<times> world" where
  "get_org_insights_count st org_ids period_start period_end w =
     get_org_model_count st Insight org_ids period_start period_end w"

text \<open>
  The body of the loop over the team rows in \<^verbatim>\<open>get_team_ids_for_orgs\<close>:
  \<^verbatim>\<open>if org_id in result: result[org_id].append(team["id"])\<close>.
\<close>

definition append_team ::
    "int \<times> string \<Rightarrow> (string \<times> int list) list \<Rightarrow> (string \<times> int list) list" where
  "append_team team result =
     (case team of (tid, org_id) \<Rightarrow>
        (case map_of result org_id of
           Some ids \<Rightarrow> AList.update org_id (ids @ [tid]) result
         | None \<Rightarrow> result))"

definition get_team_ids_for_orgs ::
    "stores \<Rightarrow> string list \<Rightarrow> world \<Rightarrow> (string \<times> int list) list \<times> world" where
  "get_team_ids_for_orgs st org_ids w =
     (if org_ids = [] then ([], w)
      else
        let teams = team_query st org_ids;
            w = issue (TeamQuery org_ids) w;
            result = dict_of (map (\<lambda>org_id. (org_id, [])) org_ids);
            result = fold append_team teams result
        in (result, w))"

definition usage_signals_of_row :: "usage_row \<Rightarrow> TeamUsageSignals" where
  "usage_signals_of_row row =
     (case row of (r0, r1, r2, r3, r4, r5, r6, r7, r8) \<Rightarrow>
        \<lparr>team_id = r0, active_persons = r1, active_distinct_ids = r2,
         session_count = r3, total_events = r4,
         has_feature_flags = py_bool r5, has_surveys = py_bool r6,
         has_error_tracking = py_bool r7, has_ai = py_bool r8\<rparr>)"

definition get_teams_with_usage_signals_in_period ::
    "stores \<Rightarrow> int \<Rightarrow> int \<Rightarrow> int list \<Rightarrow> world \<Rightarrow> TeamUsageSignals list \<times> world" where
  "get_teams_with_usage_signals_in_period st begin end' team_ids w =
     (if team_ids = [] then ([], w)
      else
        let results = events_result st team_ids begin end';
            w = issue (UsageQuery team_ids begin end') w
        in (map usage_signals_of_row results, w))"

definition get_teams_with_recordings_in_period ::
    "stores \<Rightarrow> int \<Rightarrow> int \<Rightarrow> int list \<Rightarrow> world \<Rightarrow> (int \<times> int) list \<times> world" where
  "get_teams_with_recordings_in_period st begin end' team_ids w =
     (if team_ids = [] then ([], w)
      else if begin \<ge> end' then ([], w)
      else
        let previous_begin = begin - (end' - begin);
            results = recordings_query (session_replay_events st) team_ids
                        previous_begin begin end';
            w = issue (RecordingsQuery team_ids previous_begin begin end') w
        in (dict_of results, w))"

section \<open>The orchestration\<close>

record PeriodData =
  signals_by_team :: "(int \<times> TeamUsageSignals) list"
  prev_signals_by_team :: "(int \<times> TeamUsageSignals) list"
  recordings :: "(int \<times> int) list"
  dashboards :: "(string \<times> int) list"
  insights :: "(string \<times> int) list"

text \<open>
  \<^verbatim>\<open>fetch_period_data\<close> is a closure of the orchestration over \<^verbatim>\<open>org_ids\<close> and
  \<^verbatim>\<open>all_team_ids\<close>; here both are parameters. The five fetches run in the order the
  source evaluates them.
\<close>

definition fetch_period_data ::
    "stores \<Rightarrow> string list \<Rightarrow> int list \<Rightarrow> int \<Rightarrow> int \<Rightarrow> int \<Rightarrow> world \<Rightarrow> PeriodData \<times> world" where
  "fetch_period_data st org_ids all_team_ids start end' prev_start w =
     (let (signals, w) = get_teams_with_usage_signals_in_period st start end' all_team_ids w;
          (prev_signals, w) =
             get_teams_with_usage_signals_in_period st prev_start start all_team_ids w;
          (recs, w) = get_teams_with_recordings_in_period st start end' all_team_ids w;
          (dash, w) = get_org_dashboards_count st org_ids start end' w;
          (ins, w) = get_org_insights_count st org_ids start end' w
      in (\<lparr>signals_by_team = dict_of (map (\<lambda>s. (team_id s, s)) signals),
           prev_signals_by_team = dict_of (map (\<lambda>s. (team_id s, s)) prev_signals),
           recordings = recs, dashboards = dash, insights = ins\<rparr>, w))"

definition team_signals_of :: "(int \<times> TeamUsageSignals) list \<Rightarrow> int list \<Rightarrow> TeamUsageSignals list" where
  \<comment> \<open>\<^verbatim>\<open>[by_team[tid] for tid in team_ids if tid in by_team]\<close>\<close>
  "team_signals_of by_team team_ids =
     concat (map (\<lambda>tid. case map_of by_team tid of Some s \<Rightarrow> [s] | None \<Rightarrow> []) team_ids)"

text \<open>The body of the loop over \<^verbatim>\<open>org_ids\<close>: the record stored at \<^verbatim>\<open>result[org_id]\<close>.\<close>

definition org_usage_signals ::
    "(string \<times> int list) list \<Rightarrow> PeriodData \<Rightarrow> PeriodData \<Rightarrow> (string \<times> int option) list \<Rightarrow>
     string \<Rightarrow> UsageSignals" where
  "org_usage_signals org_to_teams p7 p30 login_recency org_id =
     (let team_ids = dict_get org_to_teams org_id [];
          agg_7d = aggregate_teams_to_org (team_signals_of (signals_by_team p7) team_ids);
          agg_7d_prev = aggregate_teams_to_org (team_signals_of (prev_signals_by_team p7) team_ids);
          agg_30d = aggregate_teams_to_org (team_signals_of (signals_by_team p30) team_ids);
          agg_30d_prev =
            aggregate_teams_to_org (team_signals_of (prev_signals_by_team p30) team_ids)
      in \<lparr>active_users_7d = active_users agg_7d,
          sessions_7d = sessions agg_7d,
          events_per_session_7d = events_per_session agg_7d,
          insights_per_user_7d =
            per_user_metric (dict_get (insights p7) org_id 0) (active_users agg_7d),
          dashboards_per_user_7d =
            per_user_metric (dict_get (dashboards p7) org_id 0) (active_users agg_7d),
          products_activated_7d =
            get_products_with_recordings (products_activated agg_7d) team_ids (recordings p7),
          active_users_30d = active_users agg_30d,
          sessions_30d = sessions agg_30d,
          events_per_session_30d = events_per_session agg_30d,
          insights_per_user_30d =
            per_user_metric (dict_get (insights p30) org_id 0) (active_users agg_30d),
          dashboards_per_user_30d =
            per_user_metric (dict_get (dashboards p30) org_id 0) (active_users agg_30d),
          products_activated_30d =
            get_products_with_recordings (products_activated agg_30d) team_ids (recordings p30),
          active_users_7d_momentum =
            calc_momentum (real_of_int (active_users agg_7d))
              (real_of_int (active_users agg_7d_prev)),
          sessions_7d_momentum =
            calc_momentum (real_of_int (sessions agg_7d)) (real_of_int (sessions agg_7d_prev)),
          events_per_session_7d_momentum = calc_eps_momentum agg_7d agg_7d_prev,
          active_users_30d_momentum =
            calc_momentum (real_of_int (active_users agg_30d))
              (real_of_int (active_users agg_30d_prev)),
          sessions_30d_momentum =
            calc_momentum (real_of_int (sessions agg_30d)) (real_of_int (sessions agg_30d_prev)),
          events_per_session_30d_momentum = calc_eps_momentum agg_30d agg_30d_prev,
          days_since_last_login = dict_get login_recency org_id None\<rparr>)"

definition aggregate_usage_signals_for_orgs ::
    "stores \<Rightarrow> string list \<Rightarrow> world \<Rightarrow> (string \<times> UsageSignals) list \<times> world" where
  "aggregate_usage_signals_for_orgs st org_ids w =
     (if org_ids = [] then ([], w)
      else
        let (now, w) = datetime_now w;
            p7_start = now - timedelta_days 7;
            p7_end = now;
            p7_prev_start = p7_start - timedelta_days 7;
            p30_start = now - timedelta_days 30;
            p30_end = now;
            p30_prev_start = p30_start - timedelta_days 30;
            (org_to_teams, w) = get_team_ids_for_orgs st org_ids w;
            all_team_ids = concat (map snd org_to_teams)
        in if all_team_ids = []
           then (dict_of (map (\<lambda>org_id. (org_id, UsageSignals_default)) org_ids), w)
           else
             let (p7, w) = fetch_period_data st org_ids all_team_ids p7_start p7_end p7_prev_start w;
                 (p30, w) =
                    fetch_period_data st org_ids all_team_ids p30_start p30_end p30_prev_start w;
                 (login_recency, w) = get_org_login_recency st org_ids w
             in (fold (\<lambda>org_id result.
                         AList.update org_id
                           (org_usage_signals org_to_teams p7 p30 login_recency org_id) result)
                   org_ids [], w))"

section \<open>CRM record translation and bulk update\<close>

text \<open>
  \<^verbatim>\<open>posthog/temporal/salesforce_enrichment/usage_workflow.py\<close> is not among the
  sources at hand; only its tests are. Its two functions below follow the specification
  (sections 4.8, 5 and 7), with the field names the tests expect.
\<close>

datatype sf_value = SfNull | SfInt int | SfFloat real | SfStr string

definition sf_int :: "int \<Rightarrow> sf_value" where
  "sf_int n = SfInt n"

definition sf_opt_int :: "int option \<Rightarrow> sf_value" where
  "sf_opt_int v = (case v of None \<Rightarrow> SfNull | Some n \<Rightarrow> SfInt n)"

definition sf_opt_float :: "real option \<Rightarrow> sf_value" where
  "sf_opt_float v = (case v of None \<Rightarrow> SfNull | Some x \<Rightarrow> SfFloat x)"

text \<open>
  Modelled from the spec: the fixed name table of the record translation, which is missing
  from the sources. Each field of \<^typ>\<open>UsageSignals\<close> other than the two product lists has
  one CRM field name (the names are those the tests read); a null source value is
  \<^const>\<open>SfNull\<close>.
\<close>

definition field_name_table :: "(string \<times> (UsageSignals \<Rightarrow> sf_value)) list" where
  "field_name_table =
     [(''posthog_active_users_7d__c'', \<lambda>s. sf_int (active_users_7d s)),
      (''posthog_active_users_30d__c'', \<lambda>s. sf_int (active_users_30d s)),
      (''posthog_sessions_7d__c'', \<lambda>s. sf_int (sessions_7d s)),
      (''posthog_sessions_30d__c'', \<lambda>s. sf_int (sessions_30d s)),
      (''posthog_events_per_session_7d__c'', \<lambda>s. sf_opt_float (events_per_session_7d s)),
      (''posthog_events_per_session_30d__c'', \<lambda>s. sf_opt_float (events_per_session_30d s)),
      (''posthog_insights_per_user_7d__c'', \<lambda>s. sf_opt_float (insights_per_user_7d s)),
      (''posthog_insights_per_user_30d__c'', \<lambda>s. sf_opt_float (insights_per_user_30d s)),
      (''posthog_dashboards_per_user_7d__c'', \<lambda>s. sf_opt_float (dashboards_per_user_7d s)),
      (''posthog_dashboards_per_user_30d__c'', \<lambda>s. sf_opt_float (dashboards_per_user_30d s)),
      (''posthog_active_users_7d_momentum__c'', \<lambda>s. sf_opt_float (active_users_7d_momentum s)),
      (''posthog_active_users_30d_momentum__c'', \<lambda>s. sf_opt_float (active_users_30d_momentum s)),
      (''posthog_sessions_7d_momentum__c'', \<lambda>s. sf_opt_float (sessions_7d_momentum s)),
      (''posthog_sessions_30d_momentum__c'', \<lambda>s. sf_opt_float (sessions_30d_momentum s)),
      (''posthog_eps_7d_momentum__c'', \<lambda>s. sf_opt_float (events_per_session_7d_momentum s)),
      (''posthog_eps_30d_momentum__c'', \<lambda>s. sf_opt_float (events_per_session_30d_momentum s)),
      (''posthog_last_login_days__c'', \<lambda>s. sf_opt_int (days_since_last_login s))]"

text \<open>Python's \<^verbatim>\<open>",".join(xs)\<close>: the strings of the list with a comma between neighbours.\<close>

fun join_comma :: "string list \<Rightarrow> string" where
  "join_comma [] = []"
| "join_comma [x] = x"
| "join_comma (x # y # ys) = x @ '','' @ join_comma (y # ys)"

text \<open>
  Python's \<^verbatim>\<open>str.split(",")\<close>: the pieces between the commas; a string without a comma
  is one piece.
\<close>

fun split_comma :: "string \<Rightarrow> string list" where
  "split_comma [] = [[]]"
| "split_comma (c # cs) =
     (if c = CHR '','' then [] # split_comma cs
      else case split_comma cs of
             w # ws \<Rightarrow> (c # w) # ws
           | [] \<Rightarrow> [[c]])"

text \<open>
  Modelled from the spec: the serialization of an activated-products list, which is
  missing from the sources: ``joined as a deterministically sorted, comma-separated
  string, empty string when the list is empty''. The specification leaves open whether
  duplicates are dropped before joining (section 9); the choice is the parameter
  \<open>dedup\<close>, and what is proved holds for both.
\<close>

definition products_string :: "bool \<Rightarrow> string list \<Rightarrow> string" where
  "products_string dedup products =
     join_comma (sort (if dedup then remdups products else products))"

text \<open>
  Modelled from the spec: \<^verbatim>\<open>prepare_salesforce_update_record\<close>, which is missing from the
  sources. The account identifier goes under \<^verbatim>\<open>Id\<close>; every field of the name table is
  written when its value is not null; the two product lists are always written.
\<close>

definition prepare_salesforce_update_record ::
    "bool \<Rightarrow> string \<Rightarrow> UsageSignals \<Rightarrow> (string \<times> sf_value) list" where
  "prepare_salesforce_update_record dedup account_id signals =
     [(''Id'', SfStr account_id)] @
     [(name, get signals). (name, get) \<leftarrow> field_name_table, get signals \<noteq> SfNull] @
     [(''posthog_products_7d__c'',
         SfStr (products_string dedup (products_activated_7d signals))),
      (''posthog_products_30d__c'',
         SfStr (products_string dedup (products_activated_30d signals)))]"

record SalesforceUsageUpdate =
  salesforce_account_id :: string
  signals :: UsageSignals

record bulk_result =
  result_id :: string
  success :: bool
  errors :: "string list"

text \<open>
  The CRM's bulk call either raises (a transport or API-level exception) or returns one
  result per record.
\<close>

datatype bulk_outcome = BulkRaised string | BulkReturned "bulk_result list"

text \<open>
  Modelled from the spec: \<^verbatim>\<open>update_salesforce_usage_activity\<close>, which is missing from the
  sources. The CRM client is the parameter \<open>bulk_update\<close>; \<open>dedup\<close> is passed on to the
  record translation. The result is \<open>Inr\<close> of the number returned, or \<open>Inl\<close> of an
  exception the activity lets escape.
\<close>

definition update_salesforce_usage_activity ::
    "bool \<Rightarrow> ((string \<times> sf_value) list list \<Rightarrow> bulk_outcome) \<Rightarrow> SalesforceUsageUpdate list \<Rightarrow>
     string + nat" where
  "update_salesforce_usage_activity dedup bulk_update updates =
     (if updates = [] then Inr 0
      else
        let records = map (\<lambda>u. prepare_salesforce_update_record dedup
                                  (salesforce_account_id u) (signals u)) updates
        in case bulk_update records of
             BulkRaised e \<Rightarrow> Inr 0
           | BulkReturned results \<Rightarrow> Inr (length (filter success results)))"

section \<open>Toolbar authorization handshake: the exchange\<close>

text \<open>
  \<^verbatim>\<open>posthog/api/oauth/toolbar_service.py\<close> is not among the sources at hand; only its
  tests are. The model follows section 4.9 of the specification.
\<close>

datatype oauth_error =
    invalid_request | invalid_json | invalid_app_url | invalid_state
  | state_user_mismatch | state_team_mismatch | state_replay
  | token_exchange_unavailable | token_exchange_invalid_response












section \<open>Session recordings: the notions of the specification\<close>

text \<open>
  Section 4.2 of the specification, on the session-replay table: a session is keyed by
  (team, session); its first-seen timestamp is the minimum of its recorded start
  timestamps. \<open>lookback_timestamps\<close> are those of a session's timestamps that the query's
  range \<open>[previous_begin, end)\<close> admits, and \<open>counted_sessions\<close> are the sessions of a team
  whose least admitted timestamp is not before \<open>begin\<close>.
\<close>

definition session_timestamps :: "(int \<times> string \<times> int) list \<Rightarrow> int \<Rightarrow> string \<Rightarrow> int list" where
  "session_timestamps table t s = [ts. (t', s', ts) \<leftarrow> table, t' = t \<and> s' = s]"

definition first_seen :: "(int \<times> string \<times> int) list \<Rightarrow> int \<Rightarrow> string \<Rightarrow> int" where
  "first_seen table t s = Min (set (session_timestamps table t s))"

definition sessions_of_team :: "(int \<times> string \<times> int) list \<Rightarrow> int \<Rightarrow> string list" where
  "sessions_of_team table t = remdups [s. (t', s, ts) \<leftarrow> table, t' = t]"

definition lookback_timestamps ::
    "(int \<times> string \<times> int) list \<Rightarrow> int \<Rightarrow> int \<Rightarrow> int \<Rightarrow> string \<Rightarrow> int list" where
  "lookback_timestamps table previous_begin end' t s =
     filter (\<lambda>ts. previous_begin \<le> ts \<and> ts < end') (session_timestamps table t s)"

definition counted_sessions ::
    "(int \<times> string \<times> int) list \<Rightarrow> int \<Rightarrow> int \<Rightarrow> int \<Rightarrow> int \<Rightarrow> string list" where
  "counted_sessions table previous_begin begin end' t =
     filter (\<lambda>s. lookback_timestamps table previous_begin end' t s \<noteq> [] \<and>
                 begin \<le> Min (set (lookback_timestamps table previous_begin end' t s)))
       (sessions_of_team table t)"

section \<open>Concrete inputs\<close>

text \<open>The two teams of the aggregation test \<^verbatim>\<open>test_multiple_teams_sum\<close>.\<close>

definition example_team_1 :: TeamUsageSignals where
  "example_team_1 =
     \<lparr>team_id = 1, active_persons = 100, active_distinct_ids = 90,
      session_count = 50, total_events = 1000, has_feature_flags = True,
      has_surveys = False, has_error_tracking = False, has_ai = False\<rparr>"

definition example_team_2 :: TeamUsageSignals where
  "example_team_2 =
     \<lparr>team_id = 2, active_persons = 200, active_distinct_ids = 180,
      session_count = 100, total_events = 2000, has_feature_flags = False,
      has_surveys = True, has_error_tracking = False, has_ai = True\<rparr>"

text \<open>
  A snapshot of the stores: organization \<^verbatim>\<open>org-1\<close> has team 7, organization \<^verbatim>\<open>org-2\<close> has
  members but no team; every membership's user logged in last at time 0. The event store
  answers every usage query with one row for team 7; the clock reads one microsecond
  short of three days at its first reading and three days from the second reading on.
\<close>

definition example_stores :: stores where
  "example_stores =
     \<lparr>team_rows = [(7, ''org-1'')],
      membership_rows = [(''org-1'', Some 0), (''org-2'', Some 0)],
      dashboard_rows = [(''org-1'', 200000000000, False), (''org-1'', 200000000000, True)],
      insight_rows = [(''org-1'', 100000000000, False), (''org-1'', 200000000000, False)],
      events_result = (\<lambda>team_ids begin end'. [(7, 100, 90, 50, 1000, 1, 0, 0, 0)]),
      session_replay_events = [(7, ''s1'', 200000000000)]\<rparr>"

definition example_world :: world where
  "example_world =
     \<lparr>clock = (\<lambda>k. if k = 0 then 259199999999 else 259200000000),
      clock_reads = 0, issued = []\<rparr>"

text \<open>
  A report as the translation tests build them: 100 active users and 10.5 events per
  session in seven days, three products over thirty days, a last login three days ago,
  everything else at its default.
\<close>

definition example_signals :: UsageSignals where
  "example_signals =
     UsageSignals_default
       \<lparr>active_users_7d := 100,
        events_per_session_7d := Some (21 / 2),
        products_activated_30d := [''analytics'', ''recordings'', ''feature_flags''],
        days_since_last_login := Some 3\<rparr>"

text \<open>A batch of three updates, as in the bulk-update tests.\<close>

definition example_updates :: "SalesforceUsageUpdate list" where
  "example_updates =
     [\<lparr>salesforce_account_id = ''001ABC'', signals = example_signals\<rparr>,
      \<lparr>salesforce_account_id = ''001DEF'', signals = example_signals\<rparr>,
      \<lparr>salesforce_account_id = ''001GHI'', signals = example_signals\<rparr>]"






text \<open>
  A replay table in which session \<^verbatim>\<open>s\<close> of team 1 has a row long before the window and a
  row inside it.
\<close>

definition example_replay_table :: "(int \<times> string \<times> int) list" where
  "example_replay_table =
     [(1, ''s'', - 15), (1, ''s'', 1), (2, ''t'', 3), (2, ''u'', - 1), (2, ''u'', 2)]"

section \<open>Momentum\<close>

text \<open>
  C1. For every pair (current, previous), \<^const>\<open>calc_momentum\<close> returns \<^const>\<open>None\<close>
  exactly when previous is zero, whatever current is (so also at (0, 0)), and otherwise
  returns ((current - previous) / previous) * 100.
\<close>

theorem calc_momentum_spec:
  "(calc_momentum current previous = None) = (previous = 0) \<and>
   (previous \<noteq> 0 \<longrightarrow>
      calc_momentum current previous = Some (((current - previous) / previous) * 100)) \<and>
   calc_momentum 0 0 = None \<and>
   calc_momentum current 0 = calc_momentum current' 0"
  by (simp add: calc_momentum_def)

theorem calc_momentum_spec_witness:
  "calc_momentum 150 100 = Some 50 \<and> calc_momentum 50 100 = Some (- 50) \<and>
   calc_momentum 100 0 = None \<and> calc_momentum 0 0 = None"
  using calc_momentum_spec [of 150 100 0] calc_momentum_spec [of 50 100 0]
    calc_momentum_spec [of 100 0 0]
  by simp

section \<open>Organization aggregation\<close>

lemma products_activated_aggregate:
  "products_activated (aggregate_teams_to_org ts) =
     [product_name. (attr, product_name) \<leftarrow> PRODUCT_FLAGS, list_ex attr ts]"
  by (simp add: aggregate_teams_to_org_def OrgAggregatedSignals_default_def PRODUCT_FLAGS_def Let_def)

text \<open>
  C3. For every list of per-team signals, \<^const>\<open>aggregate_teams_to_org\<close> returns the sums of
  the active persons, session counts and event counts; events-per-session is the quotient
  of the two totals when the session total is positive and null when it is zero; a product
  name is in the activated list exactly when some team of the list has the flag the fixed
  mapping pairs with it; the empty list gives the all-zero record with no product.
\<close>

theorem aggregate_teams_to_org_spec:
  "active_users (aggregate_teams_to_org ts) = sum_list (map active_persons ts) \<and>
   sessions (aggregate_teams_to_org ts) = sum_list (map session_count ts) \<and>
   OrgAggregatedSignals.total_events (aggregate_teams_to_org ts) =
     sum_list (map TeamUsageSignals.total_events ts) \<and>
   (sum_list (map session_count ts) > 0 \<longrightarrow>
      events_per_session (aggregate_teams_to_org ts) =
        Some (real_of_int (sum_list (map TeamUsageSignals.total_events ts)) /
              real_of_int (sum_list (map session_count ts)))) \<and>
   (sum_list (map session_count ts) = 0 \<longrightarrow>
      events_per_session (aggregate_teams_to_org ts) = None) \<and>
   (\<forall>name. name \<in> set (products_activated (aggregate_teams_to_org ts)) \<longleftrightarrow>
      (name = ''feature_flags'' \<and> (\<exists>t \<in> set ts. has_feature_flags t)) \<or>
      (name = ''surveys'' \<and> (\<exists>t \<in> set ts. has_surveys t)) \<or>
      (name = ''error_tracking'' \<and> (\<exists>t \<in> set ts. has_error_tracking t)) \<or>
      (name = ''ai'' \<and> (\<exists>t \<in> set ts. has_ai t))) \<and>
   aggregate_teams_to_org [] =
     \<lparr>active_users = 0, sessions = 0, total_events = 0,
      events_per_session = None, products_activated = []\<rparr>"
proof -
  have sums: "active_users (aggregate_teams_to_org ts) = sum_list (map active_persons ts) \<and>
      sessions (aggregate_teams_to_org ts) = sum_list (map session_count ts) \<and>
      OrgAggregatedSignals.total_events (aggregate_teams_to_org ts) =
        sum_list (map TeamUsageSignals.total_events ts)"
    by (simp add: aggregate_teams_to_org_def OrgAggregatedSignals_default_def Let_def)
  have eps: "events_per_session (aggregate_teams_to_org ts) =
      (if sum_list (map session_count ts) > 0
       then Some (real_of_int (sum_list (map TeamUsageSignals.total_events ts)) /
                  real_of_int (sum_list (map session_count ts)))
       else None)"
    by (simp add: aggregate_teams_to_org_def OrgAggregatedSignals_default_def Let_def)
  have prods: "name \<in> set (products_activated (aggregate_teams_to_org ts)) \<longleftrightarrow>
      (name = ''feature_flags'' \<and> (\<exists>t \<in> set ts. has_feature_flags t)) \<or>
      (name = ''surveys'' \<and> (\<exists>t \<in> set ts. has_surveys t)) \<or>
      (name = ''error_tracking'' \<and> (\<exists>t \<in> set ts. has_error_tracking t)) \<or>
      (name = ''ai'' \<and> (\<exists>t \<in> set ts. has_ai t))" for name
    unfolding products_activated_aggregate PRODUCT_FLAGS_def
    by (auto simp: list_ex_iff)
  have empty: "aggregate_teams_to_org [] =
     \<lparr>active_users = 0, sessions = 0, total_events = 0,
      events_per_session = None, products_activated = []\<rparr>"
    by (simp add: aggregate_teams_to_org_def OrgAggregatedSignals_default_def)
  from sums eps prods empty show ?thesis by simp
qed

theorem aggregate_teams_to_org_spec_witness:
  "active_users (aggregate_teams_to_org [example_team_1, example_team_2]) = 300 \<and>
   sessions (aggregate_teams_to_org [example_team_1, example_team_2]) = 150 \<and>
   events_per_session (aggregate_teams_to_org [example_team_1, example_team_2]) = Some 20 \<and>
   ''surveys'' \<in> set (products_activated
      (aggregate_teams_to_org [example_team_1, example_team_2])) \<and>
   ''error_tracking'' \<notin> set (products_activated
      (aggregate_teams_to_org [example_team_1, example_team_2])) \<and>
   events_per_session (aggregate_teams_to_org [example_team_1\<lparr>session_count := 0\<rparr>]) = None"
  using aggregate_teams_to_org_spec [of "[example_team_1, example_team_2]"]
    aggregate_teams_to_org_spec [of "[example_team_1\<lparr>session_count := 0\<rparr>]"]
  by (simp add: example_team_1_def example_team_2_def)

section \<open>Dictionaries, product lists and the team mapping: auxiliary facts\<close>

lemma map_of_fold_update:
  "map_of (fold (\<lambda>k r. AList.update k (f k) r) ks acc) k =
     (if k \<in> set ks then Some (f k) else map_of acc k)"
  by (induction ks arbitrary: acc) (auto simp: update_conv')

lemma keys_fold_update:
  "fst ` set (fold (\<lambda>k r. AList.update k (f k) r) ks acc) = set ks \<union> fst ` set acc"
  by (induction ks arbitrary: acc) (auto simp: dom_update)

lemma distinct_fold_update:
  "distinct (map fst acc) \<Longrightarrow> distinct (map fst (fold (\<lambda>k r. AList.update k (f k) r) ks acc))"
  by (induction ks arbitrary: acc) (auto simp: distinct_update)


lemma map_of_fold_update_pairs:
  "map_of (fold (\<lambda>(k, v) d. AList.update k v d) kvs acc) = map_of acc ++ map_of (rev kvs)"
  by (induction kvs arbitrary: acc) (auto simp: update_conv' fun_eq_iff map_add_def split: option.splits)

lemma distinct_fold_update_pairs:
  "distinct (map fst acc) \<Longrightarrow> distinct (map fst (fold (\<lambda>(k, v) d. AList.update k v d) kvs acc))"
  by (induction kvs arbitrary: acc) (auto simp: distinct_update)

lemma map_of_dict_of: "map_of (dict_of kvs) = map_of (rev kvs)"
  by (simp add: dict_of_def map_of_fold_update_pairs)

lemma distinct_dict_of: "distinct (map fst (dict_of kvs))"
  by (simp add: dict_of_def distinct_fold_update_pairs)

lemma keys_dict_of: "fst ` set (dict_of kvs) = fst ` set kvs"
proof -
  have "dom (map_of (dict_of kvs)) = dom (map_of (rev kvs))" by (simp add: map_of_dict_of)
  then show ?thesis by (simp add: dom_map_of_conv_image_fst)
qed

lemma subseq_products_aggregate:
  "subseq (products_activated (aggregate_teams_to_org ts))
     [''feature_flags'', ''surveys'', ''error_tracking'', ''ai'']"
  unfolding products_activated_aggregate PRODUCT_FLAGS_def by simp

lemma distinct_products_aggregate:
  "distinct (products_activated (aggregate_teams_to_org ts))"
  unfolding products_activated_aggregate PRODUCT_FLAGS_def by simp

lemma recordings_cases:
  "get_products_with_recordings ps tids recs =
     (if (\<exists>tid \<in> set tids. dict_get recs tid 0 > 0) \<and> ''recordings'' \<notin> set ps
      then ps @ [''recordings''] else ps)"
  by (simp add: get_products_with_recordings_def list_ex_iff)

lemma distinct_with_recordings:
  "distinct ps \<Longrightarrow> distinct (get_products_with_recordings ps tids recs)"
  by (simp add: recordings_cases)

lemma subseq_with_recordings:
  assumes "subseq ps base"
  shows "subseq (get_products_with_recordings ps tids recs) (base @ [''recordings''])"
proof -
  have a: "subseq (ps @ [''recordings'']) (base @ [''recordings''])"
    using assms by (simp add: list_emb_append_mono)
  have b: "subseq ps (base @ [''recordings''])"
    using assms by (metis append.right_neutral list_emb_append_mono list_emb_Nil)
  show ?thesis using a b by (simp add: recordings_cases)
qed




lemma clock_issue [simp]: "clock (issue q w) = clock w"
  and clock_reads_issue [simp]: "clock_reads (issue q w) = clock_reads w"
  and issued_issue [simp]: "issued (issue q w) = issued w @ [q]"
  by (simp_all add: issue_def)

subsection \<open>The team mapping\<close>

lemma keys_append_team: "map fst (append_team t d) = map fst d"
  by (cases t) (auto simp: append_team_def update_keys map_of_eq_None_iff split: option.splits dest: weak_map_of_SomeI)

lemma keys_fold_append_team: "map fst (fold append_team ts d) = map fst d"
  by (induction ts arbitrary: d) (simp_all add: keys_append_team)

lemma map_of_append_team:
  "map_of (append_team (tid, o') d) org =
     (case map_of d org of None \<Rightarrow> None
      | Some ids \<Rightarrow> Some (if o' = org then ids @ [tid] else ids))"
  by (auto simp: append_team_def update_conv' split: option.splits)

lemma map_of_fold_append_team:
  "map_of (fold append_team ts d) org =
     (case map_of d org of None \<Rightarrow> None
      | Some ids \<Rightarrow> Some (ids @ [tid. (tid, o') \<leftarrow> ts, o' = org]))"
proof (induction ts arbitrary: d)
  case Nil
  then show ?case by (simp split: option.splits)
next
  case (Cons t ts)
  obtain tid o' where t: "t = (tid, o')" by (cases t)
  show ?case
    by (simp add: t Cons.IH map_of_append_team split: option.splits)
qed

lemma get_team_ids_for_orgs_eq:
  "org_ids \<noteq> [] \<Longrightarrow>
   get_team_ids_for_orgs st org_ids w =
     (fold append_team (team_query st org_ids) (dict_of (map (\<lambda>org_id. (org_id, [])) org_ids)),
      issue (TeamQuery org_ids) w)"
  by (simp add: get_team_ids_for_orgs_def Let_def)

lemma map_of_team_ids:
  assumes "org_ids \<noteq> []"
  shows "map_of (fst (get_team_ids_for_orgs st org_ids w)) org =
     (if org \<in> set org_ids then Some [tid. (tid, o') \<leftarrow> team_rows st, o' = org] else None)"
proof -
  have init: "map_of (dict_of (map (\<lambda>org_id. (org_id, [])) org_ids)) org =
      (if org \<in> set org_ids then Some [] else None)"
    by (simp add: map_of_dict_of rev_map map_of_map_restrict restrict_map_def)
  have "[tid. (tid, o') \<leftarrow> filter (\<lambda>(tid, o'). o' \<in> set org_ids) rows, o' = org] =
        [tid. (tid, o') \<leftarrow> rows, o' = org]" if "org \<in> set org_ids" for rows :: "(int \<times> string) list"
    using that by (induction rows) auto
  then have flt: "[tid. (tid, o') \<leftarrow> team_query st org_ids, o' = org] =
        [tid. (tid, o') \<leftarrow> team_rows st, o' = org]" if "org \<in> set org_ids"
    unfolding team_query_def using that by blast
  show ?thesis
    using flt by (simp add: get_team_ids_for_orgs_eq[OF assms] map_of_fold_append_team init)
qed

subsection \<open>The effects of the fetch functions\<close>

lemma usage_fetch_world:
  "snd (get_teams_with_usage_signals_in_period st b e tids w) =
     (if tids = [] then w else issue (UsageQuery tids b e) w)"
  by (simp add: get_teams_with_usage_signals_in_period_def Let_def)

lemma recordings_fetch_world:
  "snd (get_teams_with_recordings_in_period st b e tids w) =
     (if tids = [] \<or> b \<ge> e then w else issue (RecordingsQuery tids (b - (e - b)) b e) w)"
  by (simp add: get_teams_with_recordings_in_period_def Let_def)

lemma login_world:
  "snd (get_org_login_recency st orgs w) =
     (if orgs = [] then w
      else issue (LoginQuery orgs) (w\<lparr>clock_reads := Suc (clock_reads w)\<rparr>))"
  by (simp add: get_org_login_recency_def datetime_now_def Let_def)

lemma fetch_period_data_world:
  assumes "tids \<noteq> []" "orgs \<noteq> []" "b < e"
  shows "snd (fetch_period_data st orgs tids b e pb w) =
     issue (ModelCountQuery Insight orgs b e)
       (issue (ModelCountQuery Dashboard orgs b e)
         (issue (RecordingsQuery tids (b - (e - b)) b e)
           (issue (UsageQuery tids pb b)
             (issue (UsageQuery tids b e) w))))"
  using assms
  by (simp add: fetch_period_data_def split_def Let_def
      get_teams_with_usage_signals_in_period_def get_teams_with_recordings_in_period_def
      get_org_dashboards_count_def get_org_insights_count_def get_org_model_count_def)

lemma orchestration_short:
  assumes "org_ids \<noteq> []"
    and "concat (map snd (fst (get_team_ids_for_orgs st org_ids w))) = []"
  shows "aggregate_usage_signals_for_orgs st org_ids w =
     (dict_of (map (\<lambda>org_id. (org_id, UsageSignals_default)) org_ids),
      issue (TeamQuery org_ids) (w\<lparr>clock_reads := Suc (clock_reads w)\<rparr>))"
  using assms
  by (simp add: aggregate_usage_signals_for_orgs_def datetime_now_def split_def Let_def
      get_team_ids_for_orgs_eq)

lemma orchestration_full:
  assumes "org_ids \<noteq> []"
    and "datetime_now w = (now, w1)"
    and "get_team_ids_for_orgs st org_ids w1 = (o2t, w2)"
    and "concat (map snd o2t) \<noteq> []"
    and "fetch_period_data st org_ids (concat (map snd o2t)) (now - timedelta_days 7) now
           (now - timedelta_days 7 - timedelta_days 7) w2 = (p7, w3)"
    and "fetch_period_data st org_ids (concat (map snd o2t)) (now - timedelta_days 30) now
           (now - timedelta_days 30 - timedelta_days 30) w3 = (p30, w4)"
    and "get_org_login_recency st org_ids w4 = (lr, w5)"
  shows "aggregate_usage_signals_for_orgs st org_ids w =
     (fold (\<lambda>org_id result.
              AList.update org_id (org_usage_signals o2t p7 p30 lr org_id) result) org_ids [],
      w5)"
  using assms
  by (simp add: aggregate_usage_signals_for_orgs_def Let_def del: concat_eq_Nil_conv)


lemma orchestration_cases:
  obtains (empty) "org_ids = []" "aggregate_usage_signals_for_orgs st org_ids w = ([], w)"
  | (short) "org_ids \<noteq> []"
      "concat (map snd (fst (get_team_ids_for_orgs st org_ids w))) = []"
      "aggregate_usage_signals_for_orgs st org_ids w =
         (dict_of (map (\<lambda>org_id. (org_id, UsageSignals_default)) org_ids),
          issue (TeamQuery org_ids) (w\<lparr>clock_reads := Suc (clock_reads w)\<rparr>))"
  | (full) o2t p7 p30 lr w5 where "org_ids \<noteq> []"
      "o2t = fst (get_team_ids_for_orgs st org_ids w)"
      "concat (map snd o2t) \<noteq> []"
      "aggregate_usage_signals_for_orgs st org_ids w =
         (fold (\<lambda>org_id result.
              AList.update org_id (org_usage_signals o2t p7 p30 lr org_id) result) org_ids [],
          w5)"
proof (cases "org_ids = []")
  case True
  then show ?thesis
    using empty by (simp add: aggregate_usage_signals_for_orgs_def)
next
  case ne: False
  define o2t where "o2t = fst (get_team_ids_for_orgs st org_ids w)"
  show ?thesis
  proof (cases "concat (map snd o2t) = []")
    case True
    then show ?thesis
      using short ne orchestration_short[of org_ids st w] by (simp add: o2t_def)
  next
    case False
    define w1 where "w1 = snd (datetime_now w)"
    define now where "now = fst (datetime_now w)"
    define w2 where "w2 = snd (get_team_ids_for_orgs st org_ids w1)"
    have o2t: "get_team_ids_for_orgs st org_ids w1 = (o2t, w2)"
      using ne by (simp add: o2t_def w2_def get_team_ids_for_orgs_eq)
    obtain p7 w3 where p7: "fetch_period_data st org_ids (concat (map snd o2t))
        (now - timedelta_days 7) now (now - timedelta_days 7 - timedelta_days 7) w2 = (p7, w3)"
      by (meson surj_pair)
    obtain p30 w4 where p30: "fetch_period_data st org_ids (concat (map snd o2t))
        (now - timedelta_days 30) now (now - timedelta_days 30 - timedelta_days 30) w3 = (p30, w4)"
      by (meson surj_pair)
    obtain lr w5 where lr: "get_org_login_recency st org_ids w4 = (lr, w5)"
      by (meson surj_pair)
    have "datetime_now w = (now, w1)" by (simp add: now_def w1_def)
    from orchestration_full[OF ne this o2t False p7 p30 lr] show ?thesis
      using full[of o2t p7 p30 lr w5] ne False o2t_def by blast
  qed
qed

lemma usage_default_products:
  "products_activated_7d UsageSignals_default = [] \<and>
   products_activated_30d UsageSignals_default = []"
  by (simp add: UsageSignals_default_def)

lemma org_usage_signals_products:
  "products_activated_7d (org_usage_signals o2t p7 p30 lr org) =
     get_products_with_recordings
       (products_activated (aggregate_teams_to_org
          (team_signals_of (signals_by_team p7) (dict_get o2t org []))))
       (dict_get o2t org []) (recordings p7)"
  "products_activated_30d (org_usage_signals o2t p7 p30 lr org) =
     get_products_with_recordings
       (products_activated (aggregate_teams_to_org
          (team_signals_of (signals_by_team p30) (dict_get o2t org []))))
       (dict_get o2t org []) (recordings p30)"
  by (simp_all add: org_usage_signals_def Let_def)

lemma orchestration_values:
  assumes "(org, sig) \<in> set (fst (aggregate_usage_signals_for_orgs st org_ids w))"
  shows "sig = UsageSignals_default \<or> (\<exists>o2t p7 p30 lr. sig = org_usage_signals o2t p7 p30 lr org)"
proof (cases rule: orchestration_cases[of org_ids st w])
  case empty
  then show ?thesis using assms by simp
next
  case short
  have "map_of (dict_of (map (\<lambda>org_id. (org_id, UsageSignals_default)) org_ids)) org = Some sig"
    using assms short by (simp add: distinct_dict_of)
  then have "(org, sig) \<in> set (map (\<lambda>org_id. (org_id, UsageSignals_default)) org_ids)"
    by (metis map_of_SomeD map_of_dict_of set_rev)
  then show ?thesis by auto
next
  case (full o2t p7 p30 lr w5)
  let ?r = "fold (\<lambda>org_id result.
              AList.update org_id (org_usage_signals o2t p7 p30 lr org_id) result) org_ids []"
  have "distinct (map fst ?r)" by (rule distinct_fold_update) simp
  then have "map_of ?r org = Some sig" using assms full by simp
  then have "sig = org_usage_signals o2t p7 p30 lr org"
    by (simp add: map_of_fold_update split: if_splits)
  then show ?thesis by blast
qed

subsection \<open>The run on the example stores\<close>

lemma example_teams:
  "get_team_ids_for_orgs example_stores [''org-1'', ''org-2''] w =
     ([(''org-1'', [7]), (''org-2'', [])], issue (TeamQuery [''org-1'', ''org-2'']) w)"
  by (simp add: get_team_ids_for_orgs_def team_query_def example_stores_def dict_of_def
      append_team_def)

lemma example_usage:
  "get_teams_with_usage_signals_in_period example_stores b e [7] w =
     ([example_team_1\<lparr>team_id := 7\<rparr>], issue (UsageQuery [7] b e) w)"
  by (simp add: get_teams_with_usage_signals_in_period_def example_stores_def
      usage_signals_of_row_def py_bool_def example_team_1_def)

lemma example_recordings:
  assumes "b \<le> 100000000000" "200000000000 < e"
  shows "get_teams_with_recordings_in_period example_stores b e [7] w =
     ([(7, 1)], issue (RecordingsQuery [7] (b - (e - b)) b e) w)"
  using assms
  by (simp add: get_teams_with_recordings_in_period_def example_stores_def
      recordings_query_def recordings_inner_def dict_of_def)

lemma example_dashboards:
  assumes "b \<le> 100000000000" "200000000000 < e"
  shows "get_org_dashboards_count example_stores [''org-1'', ''org-2''] b e w =
     ([(''org-1'', 1)], issue (ModelCountQuery Dashboard [''org-1'', ''org-2''] b e) w)"
  using assms
  by (simp add: get_org_dashboards_count_def get_org_model_count_def model_count_query_def
      model_rows_def example_stores_def dict_of_def)

lemma example_insights:
  assumes "b \<le> 100000000000" "200000000000 < e"
  shows "get_org_insights_count example_stores [''org-1'', ''org-2''] b e w =
     ([(''org-1'', 2)], issue (ModelCountQuery Insight [''org-1'', ''org-2''] b e) w)"
  using assms
  by (simp add: get_org_insights_count_def get_org_model_count_def model_count_query_def
      model_rows_def example_stores_def dict_of_def)

lemma example_fetch:
  assumes "b \<le> 100000000000" "200000000000 < e"
  shows "fetch_period_data example_stores [''org-1'', ''org-2''] [7] b e pb w =
     (\<lparr>signals_by_team = [(7, example_team_1\<lparr>team_id := 7\<rparr>)],
       prev_signals_by_team = [(7, example_team_1\<lparr>team_id := 7\<rparr>)],
       recordings = [(7, 1)], dashboards = [(''org-1'', 1)], insights = [(''org-1'', 2)]\<rparr>,
      issue (ModelCountQuery Insight [''org-1'', ''org-2''] b e)
       (issue (ModelCountQuery Dashboard [''org-1'', ''org-2''] b e)
         (issue (RecordingsQuery [7] (b - (e - b)) b e)
           (issue (UsageQuery [7] pb b)
             (issue (UsageQuery [7] b e) w)))))"
  by (simp add: fetch_period_data_def example_usage example_recordings[OF assms]
      example_dashboards[OF assms] example_insights[OF assms] dict_of_def example_team_1_def)

lemma example_login:
  assumes "clock w (clock_reads w) = 259200000000"
  shows "get_org_login_recency example_stores [''org-1'', ''org-2''] w =
     ([(''org-1'', Some 3), (''org-2'', Some 3)],
      issue (LoginQuery [''org-1'', ''org-2'']) (w\<lparr>clock_reads := Suc (clock_reads w)\<rparr>))"
  using assms
  by (simp add: get_org_login_recency_def datetime_now_def login_query_def example_stores_def
      sql_max_def dict_of_def days_def)

lemma example_org_1:
  "org_usage_signals [(''org-1'', [7]), (''org-2'', [])]
     \<lparr>signals_by_team = [(7, example_team_1\<lparr>team_id := 7\<rparr>)],
       prev_signals_by_team = [(7, example_team_1\<lparr>team_id := 7\<rparr>)],
       recordings = [(7, 1)], dashboards = [(''org-1'', 1)], insights = [(''org-1'', 2)]\<rparr>
     \<lparr>signals_by_team = [(7, example_team_1\<lparr>team_id := 7\<rparr>)],
       prev_signals_by_team = [(7, example_team_1\<lparr>team_id := 7\<rparr>)],
       recordings = [(7, 1)], dashboards = [(''org-1'', 1)], insights = [(''org-1'', 2)]\<rparr>
     [(''org-1'', Some 3), (''org-2'', Some 3)] ''org-1'' =
   \<lparr>active_users_7d = 100, sessions_7d = 50, events_per_session_7d = Some 20,
    insights_per_user_7d = Some (1 / 50), dashboards_per_user_7d = Some (1 / 100),
    products_activated_7d = [''feature_flags'', ''recordings''],
    active_users_30d = 100, sessions_30d = 50, events_per_session_30d = Some 20,
    insights_per_user_30d = Some (1 / 50), dashboards_per_user_30d = Some (1 / 100),
    products_activated_30d = [''feature_flags'', ''recordings''],
    active_users_7d_momentum = Some 0, sessions_7d_momentum = Some 0,
    events_per_session_7d_momentum = Some 0,
    active_users_30d_momentum = Some 0, sessions_30d_momentum = Some 0,
    events_per_session_30d_momentum = Some 0,
    days_since_last_login = Some 3\<rparr>"
  by (simp add: org_usage_signals_def dict_get_def team_signals_of_def aggregate_teams_to_org_def
      PRODUCT_FLAGS_def example_team_1_def per_user_metric_def calc_momentum_def
      calc_eps_momentum_def get_products_with_recordings_def)

lemma org_usage_signals_no_teams:
  assumes "dict_get o2t org [] = []"
  shows "org_usage_signals o2t p7 p30 lr org =
     UsageSignals_default\<lparr>days_since_last_login := dict_get lr org None\<rparr>"
  using assms
  by (simp add: org_usage_signals_def team_signals_of_def aggregate_teams_to_org_def
      OrgAggregatedSignals_default_def UsageSignals_default_def per_user_metric_def
      calc_momentum_def calc_eps_momentum_def get_products_with_recordings_def)

lemma example_run:
  "aggregate_usage_signals_for_orgs example_stores [''org-1'', ''org-2''] example_world =
    ([(''org-1'',
       \<lparr>active_users_7d = 100, sessions_7d = 50, events_per_session_7d = Some 20,
        insights_per_user_7d = Some (1 / 50), dashboards_per_user_7d = Some (1 / 100),
        products_activated_7d = [''feature_flags'', ''recordings''],
        active_users_30d = 100, sessions_30d = 50, events_per_session_30d = Some 20,
        insights_per_user_30d = Some (1 / 50), dashboards_per_user_30d = Some (1 / 100),
        products_activated_30d = [''feature_flags'', ''recordings''],
        active_users_7d_momentum = Some 0, sessions_7d_momentum = Some 0,
        events_per_session_7d_momentum = Some 0,
        active_users_30d_momentum = Some 0, sessions_30d_momentum = Some 0,
        events_per_session_30d_momentum = Some 0,
        days_since_last_login = Some 3\<rparr>),
      (''org-2'', UsageSignals_default\<lparr>days_since_last_login := Some 3\<rparr>)],
     example_world\<lparr>clock_reads := 2,
       issued :=
         [TeamQuery [''org-1'', ''org-2''],
          UsageQuery [7] (- 345600000001) 259199999999,
          UsageQuery [7] (- 950400000001) (- 345600000001),
          RecordingsQuery [7] (- 950400000001) (- 345600000001) 259199999999,
          ModelCountQuery Dashboard [''org-1'', ''org-2''] (- 345600000001) 259199999999,
          ModelCountQuery Insight [''org-1'', ''org-2''] (- 345600000001) 259199999999,
          UsageQuery [7] (- 2332800000001) 259199999999,
          UsageQuery [7] (- 4924800000001) (- 2332800000001),
          RecordingsQuery [7] (- 4924800000001) (- 2332800000001) 259199999999,
          ModelCountQuery Dashboard [''org-1'', ''org-2''] (- 2332800000001) 259199999999,
          ModelCountQuery Insight [''org-1'', ''org-2''] (- 2332800000001) 259199999999,
          LoginQuery [''org-1'', ''org-2'']]\<rparr>)"
proof -
  let ?orgs = "[''org-1'', ''org-2'']"
  let ?pd = "\<lparr>signals_by_team = [(7, example_team_1\<lparr>team_id := 7\<rparr>)],
       prev_signals_by_team = [(7, example_team_1\<lparr>team_id := 7\<rparr>)],
       recordings = [(7, 1)], dashboards = [(''org-1'', 1)], insights = [(''org-1'', 2)]\<rparr>"
  let ?o2t = "[(''org-1'', [7]), (''org-2'', [])]"
  let ?lr = "[(''org-1'', Some 3), (''org-2'', Some (3::int))]"
  have now: "datetime_now example_world = (259199999999, example_world\<lparr>clock_reads := 1\<rparr>)"
    by (simp add: datetime_now_def example_world_def)
  have run: "aggregate_usage_signals_for_orgs example_stores ?orgs example_world =
     (fold (\<lambda>org_id result.
              AList.update org_id (org_usage_signals ?o2t ?pd ?pd ?lr org_id) result) ?orgs [],
      issue (LoginQuery ?orgs) ((snd (fetch_period_data example_stores ?orgs [7]
        (259199999999 - timedelta_days 30) 259199999999
        (259199999999 - timedelta_days 30 - timedelta_days 30)
        (snd (fetch_period_data example_stores ?orgs [7]
        (259199999999 - timedelta_days 7) 259199999999
        (259199999999 - timedelta_days 7 - timedelta_days 7)
        (issue (TeamQuery ?orgs) (example_world\<lparr>clock_reads := 1\<rparr>))))))
        \<lparr>clock_reads := 2\<rparr>))"
    apply (rule orchestration_full[OF _ now example_teams])
        apply simp
       apply simp
      apply (simp add: example_fetch timedelta_days_def)
     apply (simp add: example_fetch timedelta_days_def)
    apply (simp add: example_fetch timedelta_days_def example_login example_world_def)
    done
  have no_teams: "dict_get ?o2t ''org-2'' [] = []" by (simp add: dict_get_def)
  show ?thesis
    unfolding run
    by (simp add: example_org_1 org_usage_signals_no_teams[OF no_teams] dict_get_def
        example_fetch timedelta_days_def example_world_def issue_def)
qed

section \<open>Product lists\<close>

text \<open>
  C9. The product list of \<^const>\<open>aggregate_teams_to_org\<close> has no duplicate and keeps the
  fixed order feature_flags, surveys, error_tracking, ai (it is a subsequence of that
  list). \<^const>\<open>get_products_with_recordings\<close> returns the given list unchanged or with
  \<^verbatim>\<open>recordings\<close> appended once at the end, the latter only when some team of the
  organization has a positive recording count and the name is not yet present. Hence both
  product lists of every record the orchestration returns are duplicate-free and ordered
  as feature_flags, surveys, error_tracking, ai, recordings.
\<close>

theorem products_lists_distinct_ordered:
  "distinct (products_activated (aggregate_teams_to_org ts)) \<and>
   subseq (products_activated (aggregate_teams_to_org ts))
     [''feature_flags'', ''surveys'', ''error_tracking'', ''ai''] \<and>
   prefix ps (get_products_with_recordings ps tids recs) \<and>
   (get_products_with_recordings ps tids recs = ps \<or>
    get_products_with_recordings ps tids recs = ps @ [''recordings'']) \<and>
   (get_products_with_recordings ps tids recs \<noteq> ps \<longrightarrow>
      (\<exists>tid \<in> set tids. dict_get recs tid 0 > 0) \<and> ''recordings'' \<notin> set ps) \<and>
   (\<forall>(org, sig) \<in> set (fst (aggregate_usage_signals_for_orgs st org_ids w)).
      distinct (products_activated_7d sig) \<and>
      subseq (products_activated_7d sig)
        [''feature_flags'', ''surveys'', ''error_tracking'', ''ai'', ''recordings''] \<and>
      distinct (products_activated_30d sig) \<and>
      subseq (products_activated_30d sig)
        [''feature_flags'', ''surveys'', ''error_tracking'', ''ai'', ''recordings''])"
proof -
  have rec: "prefix ps (get_products_with_recordings ps tids recs) \<and>
   (get_products_with_recordings ps tids recs = ps \<or>
    get_products_with_recordings ps tids recs = ps @ [''recordings'']) \<and>
   (get_products_with_recordings ps tids recs \<noteq> ps \<longrightarrow>
      (\<exists>tid \<in> set tids. dict_get recs tid 0 > 0) \<and> ''recordings'' \<notin> set ps)"
    by (simp add: recordings_cases)
  have out: "distinct (products_activated_7d sig) \<and>
      subseq (products_activated_7d sig)
        [''feature_flags'', ''surveys'', ''error_tracking'', ''ai'', ''recordings''] \<and>
      distinct (products_activated_30d sig) \<and>
      subseq (products_activated_30d sig)
        [''feature_flags'', ''surveys'', ''error_tracking'', ''ai'', ''recordings'']"
    if "(org, sig) \<in> set (fst (aggregate_usage_signals_for_orgs st org_ids w))" for org sig
  proof -
    from orchestration_values[OF that]
    consider "sig = UsageSignals_default"
      | o2t p7 p30 lr where "sig = org_usage_signals o2t p7 p30 lr org" by blast
    then show ?thesis
    proof cases
      case 1
      then show ?thesis by (simp add: usage_default_products)
    next
      case 2
      show ?thesis
        using subseq_with_recordings[OF subseq_products_aggregate]
          distinct_with_recordings[OF distinct_products_aggregate]
        by (simp add: 2 org_usage_signals_products)
    qed
  qed
  show ?thesis
    using distinct_products_aggregate subseq_products_aggregate rec out by blast
qed


theorem products_lists_distinct_ordered_witness:
  "get_products_with_recordings [''feature_flags''] [7] [(7, 1)] \<noteq> [''feature_flags''] \<and>
   prefix [''feature_flags''] (get_products_with_recordings [''feature_flags''] [7] [(7, 1)]) \<and>
   dict_get [(7, 1)] 7 0 > (0::int) \<and>
   map (\<lambda>(org, sig). (products_activated_7d sig, products_activated_30d sig))
     (fst (aggregate_usage_signals_for_orgs example_stores [''org-1'', ''org-2''] example_world)) =
     [([''feature_flags'', ''recordings''], [''feature_flags'', ''recordings'']), ([], [])] \<and>
   distinct [''feature_flags'', ''recordings''] \<and>
   subseq [''feature_flags'', ''recordings'']
     [''feature_flags'', ''surveys'', ''error_tracking'', ''ai'', ''recordings'']"
  using products_lists_distinct_ordered
    [of "[example_team_1]" "[''feature_flags'']" "[7]" "[(7, 1)]"
        example_stores "[''org-1'', ''org-2'']" example_world]
  by (simp add: example_run recordings_cases dict_get_def UsageSignals_default_def)

subsection \<open>Organizations without teams\<close>

lemma keys_team_ids:
  "map fst (fst (get_team_ids_for_orgs st org_ids w)) =
     map fst (dict_of (map (\<lambda>org_id. (org_id, [] :: int list)) org_ids))"
proof (cases "org_ids = []")
  case True
  then show ?thesis by (simp add: get_team_ids_for_orgs_def dict_of_def)
next
  case False
  then show ?thesis by (simp add: get_team_ids_for_orgs_eq keys_fold_append_team)
qed

lemma distinct_team_ids: "distinct (map fst (fst (get_team_ids_for_orgs st org_ids w)))"
  by (simp add: keys_team_ids distinct_dict_of)

lemma no_team_rows:
  "[tid. (tid, o') \<leftarrow> rows, o' = org] = [] \<longleftrightarrow> (\<forall>tid. (tid, org) \<notin> set rows)"
  for rows :: "(int \<times> string) list"
  by (induction rows) auto

lemma mem_team_ids:
  assumes "org_ids \<noteq> []"
  shows "(org, ids) \<in> set (fst (get_team_ids_for_orgs st org_ids w)) \<longleftrightarrow>
      org \<in> set org_ids \<and> ids = [tid. (tid, o') \<leftarrow> team_rows st, o' = org]"
proof -
  have "(org, ids) \<in> set (fst (get_team_ids_for_orgs st org_ids w)) \<longleftrightarrow>
      map_of (fst (get_team_ids_for_orgs st org_ids w)) org = Some ids"
    using distinct_team_ids[of st org_ids w] by simp
  then show ?thesis
    by (auto simp: map_of_team_ids[OF assms])
qed

lemma no_resolved_teams:
  assumes "org_ids \<noteq> []"
  shows "concat (map snd (fst (get_team_ids_for_orgs st org_ids w))) = [] \<longleftrightarrow>
     (\<forall>org \<in> set org_ids. \<forall>tid. (tid, org) \<notin> set (team_rows st))"
proof -
  let ?d = "fst (get_team_ids_for_orgs st org_ids w)"
  have "concat (map snd ?d) = [] \<longleftrightarrow> (\<forall>org ids. (org, ids) \<in> set ?d \<longrightarrow> ids = [])"
    by auto
  also have "\<dots> \<longleftrightarrow> (\<forall>org \<in> set org_ids. [tid. (tid, o') \<leftarrow> team_rows st, o' = org] = [])"
    unfolding mem_team_ids[OF assms] by blast
  finally show ?thesis by (simp only: no_team_rows)
qed

lemma team_ids_of_org_without_teams:
  assumes "\<forall>tid. (tid, org) \<notin> set (team_rows st)"
  shows "dict_get (fst (get_team_ids_for_orgs st org_ids w)) org [] = []"
proof (cases "org_ids = []")
  case True
  then show ?thesis by (simp add: get_team_ids_for_orgs_def dict_get_def)
next
  case False
  show ?thesis
    using assms no_team_rows[of org "team_rows st"]
    by (simp add: dict_get_def map_of_team_ids[OF False])
qed

section \<open>The clock and the team set of one call\<close>

lemma orchestration_full_explicit:
  assumes ne: "org_ids \<noteq> []"
    and T: "concat (map snd (fst (get_team_ids_for_orgs st org_ids w))) \<noteq> []"
  shows "aggregate_usage_signals_for_orgs st org_ids w =
    (let now = clock w (clock_reads w);
         o2t = fst (get_team_ids_for_orgs st org_ids w);
         w2 = issue (TeamQuery org_ids) (w\<lparr>clock_reads := Suc (clock_reads w)\<rparr>);
         f7 = fetch_period_data st org_ids (concat (map snd o2t)) (now - timedelta_days 7) now
                (now - timedelta_days 7 - timedelta_days 7) w2;
         f30 = fetch_period_data st org_ids (concat (map snd o2t)) (now - timedelta_days 30) now
                (now - timedelta_days 30 - timedelta_days 30) (snd f7);
         l = get_org_login_recency st org_ids (snd f30)
     in (fold (\<lambda>org_id result.
              AList.update org_id (org_usage_signals o2t (fst f7) (fst f30) (fst l) org_id) result)
           org_ids [], snd l))"
proof -
  let ?o2t = "fst (get_team_ids_for_orgs st org_ids w)"
  let ?w1 = "w\<lparr>clock_reads := Suc (clock_reads w)\<rparr>"
  have now: "datetime_now w = (clock w (clock_reads w), ?w1)"
    by (simp add: datetime_now_def)
  have teams: "get_team_ids_for_orgs st org_ids ?w1 = (?o2t, issue (TeamQuery org_ids) ?w1)"
    using ne by (simp add: get_team_ids_for_orgs_eq)
  show ?thesis
    unfolding Let_def
    by (rule orchestration_full[OF ne now teams T]) simp_all
qed

lemma map_of_rev_distinct:
  assumes "distinct (map fst xs)"
  shows "map_of (rev xs) = map_of xs"
proof -
  have "distinct (map fst (rev xs))" using assms by (simp only: rev_map[symmetric] distinct_rev)
  then show ?thesis using assms by (simp add: map_of_inject_set)
qed

lemma login_lookup:
  "dict_get (fst (get_org_login_recency st org_ids w)) org None =
     (case map_of (login_query st org_ids) org of
        Some (Some t) \<Rightarrow> Some (days (clock w (clock_reads w) - t))
      | _ \<Rightarrow> None)"
proof (cases "org_ids = []")
  case True
  then show ?thesis
    by (simp add: get_org_login_recency_def dict_get_def login_query_def)
next
  case False
  let ?g = "\<lambda>most_recent_login. case most_recent_login of
               Some t \<Rightarrow> Some (days (clock w (clock_reads w) - t)) | None \<Rightarrow> None"
  let ?rows = "login_query st org_ids"
  have d: "distinct (map fst ?rows)"
    by (simp add: login_query_def Let_def comp_def)
  have fst_eq: "fst (get_org_login_recency st org_ids w) =
      dict_of (map (\<lambda>(org, mrl). (org, ?g mrl)) ?rows)"
    using False by (simp add: get_org_login_recency_def datetime_now_def Let_def)
  have d': "distinct (map fst (map (\<lambda>(org, mrl). (org, ?g mrl)) ?rows))"
    using d by (simp add: comp_def split_def)
  have "map_of (dict_of (map (\<lambda>(org, mrl). (org, ?g mrl)) ?rows)) org =
      map_of (map (\<lambda>(org, mrl). (org, ?g mrl)) ?rows) org"
    by (simp only: map_of_dict_of map_of_rev_distinct[OF d'])
  also have "\<dots> = map_option ?g (map_of ?rows org)"
    by (simp add: map_of_map)
  finally show ?thesis
    by (simp add: fst_eq dict_get_def split: option.splits)
qed


lemma org_usage_signals_login:
  "days_since_last_login (org_usage_signals o2t p7 p30 lr org) = dict_get lr org None"
  by (simp add: org_usage_signals_def Let_def)

text \<open>
  C4, as amended. In a call that does not short-circuit, the clock is read twice. The first
  reading \<open>now\<close> is taken by the orchestration; the four windows \<open>[now - 7d, now)\<close>,
  \<open>[now - 14d, now - 7d)\<close>, \<open>[now - 30d, now)\<close> and \<open>[now - 60d, now - 30d)\<close> are derived
  from it, and every windowed fetch is sent with these bounds; every event-store fetch is
  sent with the same flattened team list and every relational fetch with the input
  organization ids. The second reading is taken inside \<^const>\<open>get_org_login_recency\<close>, after
  all windowed fetches, and days-since-last-login is counted from that second reading.
\<close>

theorem orchestration_clock_and_team_set:
  "org_ids \<noteq> [] \<and> concat (map snd (fst (get_team_ids_for_orgs st org_ids w))) \<noteq> [] \<longrightarrow>
   (let now = clock w (clock_reads w);
        now' = clock w (Suc (clock_reads w));
        T = concat (map snd (fst (get_team_ids_for_orgs st org_ids w)));
        R = aggregate_usage_signals_for_orgs st org_ids w
    in issued (snd R) = issued w @
         [TeamQuery org_ids,
          UsageQuery T (now - timedelta_days 7) now,
          UsageQuery T (now - timedelta_days 14) (now - timedelta_days 7),
          RecordingsQuery T (now - timedelta_days 14) (now - timedelta_days 7) now,
          ModelCountQuery Dashboard org_ids (now - timedelta_days 7) now,
          ModelCountQuery Insight org_ids (now - timedelta_days 7) now,
          UsageQuery T (now - timedelta_days 30) now,
          UsageQuery T (now - timedelta_days 60) (now - timedelta_days 30),
          RecordingsQuery T (now - timedelta_days 60) (now - timedelta_days 30) now,
          ModelCountQuery Dashboard org_ids (now - timedelta_days 30) now,
          ModelCountQuery Insight org_ids (now - timedelta_days 30) now,
          LoginQuery org_ids] \<and>
       clock_reads (snd R) = clock_reads w + 2 \<and>
       (\<forall>org \<in> set org_ids.
          map_option days_since_last_login (map_of (fst R) org) =
            Some (case map_of (login_query st org_ids) org of
                    Some (Some t) \<Rightarrow> Some (days (now' - t))
                  | _ \<Rightarrow> None)))"
proof (intro impI, elim conjE)
  assume ne: "org_ids \<noteq> []"
    and T: "concat (map snd (fst (get_team_ids_for_orgs st org_ids w))) \<noteq> []"
  define now where "now = clock w (clock_reads w)"
  define o2t where "o2t = fst (get_team_ids_for_orgs st org_ids w)"
  define w2 where "w2 = issue (TeamQuery org_ids) (w\<lparr>clock_reads := Suc (clock_reads w)\<rparr>)"
  define f7 where "f7 = fetch_period_data st org_ids (concat (map snd o2t))
      (now - timedelta_days 7) now (now - timedelta_days 7 - timedelta_days 7) w2"
  define f30 where "f30 = fetch_period_data st org_ids (concat (map snd o2t))
      (now - timedelta_days 30) now (now - timedelta_days 30 - timedelta_days 30) (snd f7)"
  define l where "l = get_org_login_recency st org_ids (snd f30)"
  have R: "aggregate_usage_signals_for_orgs st org_ids w =
      (fold (\<lambda>org_id result.
              AList.update org_id (org_usage_signals o2t (fst f7) (fst f30) (fst l) org_id) result)
           org_ids [], snd l)"
    using orchestration_full_explicit[OF ne T]
    by (simp add: Let_def now_def o2t_def w2_def f7_def f30_def l_def)
  have T': "concat (map snd o2t) \<noteq> []" unfolding o2t_def by (rule T)
  have lt7: "now - timedelta_days 7 < now" and lt30: "now - timedelta_days 30 < now"
    by (simp_all add: timedelta_days_def)
  have d14: "now - timedelta_days 7 - timedelta_days 7 = now - timedelta_days 14"
    and d60: "now - timedelta_days 30 - timedelta_days 30 = now - timedelta_days 60"
    and l7: "now - timedelta_days 7 - (now - (now - timedelta_days 7)) = now - timedelta_days 14"
    and l30: "now - timedelta_days 30 - (now - (now - timedelta_days 30)) = now - timedelta_days 60"
    by (simp_all add: timedelta_days_def)
  have w7: "snd f7 =
     issue (ModelCountQuery Insight org_ids (now - timedelta_days 7) now)
       (issue (ModelCountQuery Dashboard org_ids (now - timedelta_days 7) now)
         (issue (RecordingsQuery (concat (map snd o2t)) (now - timedelta_days 14)
                    (now - timedelta_days 7) now)
           (issue (UsageQuery (concat (map snd o2t)) (now - timedelta_days 14)
                    (now - timedelta_days 7))
             (issue (UsageQuery (concat (map snd o2t)) (now - timedelta_days 7) now) w2))))"
    unfolding f7_def by (simp only: fetch_period_data_world[OF T' ne lt7] d14 l7)
  have w30: "snd f30 =
     issue (ModelCountQuery Insight org_ids (now - timedelta_days 30) now)
       (issue (ModelCountQuery Dashboard org_ids (now - timedelta_days 30) now)
         (issue (RecordingsQuery (concat (map snd o2t)) (now - timedelta_days 60)
                    (now - timedelta_days 30) now)
           (issue (UsageQuery (concat (map snd o2t)) (now - timedelta_days 60)
                    (now - timedelta_days 30))
             (issue (UsageQuery (concat (map snd o2t)) (now - timedelta_days 30) now) (snd f7)))))"
    unfolding f30_def by (simp only: fetch_period_data_world[OF T' ne lt30] d60 l30)
  have clk: "clock (snd f30) = clock w" "clock_reads (snd f30) = Suc (clock_reads w)"
    by (simp_all add: w30 w7 w2_def)
  have wl: "snd l = issue (LoginQuery org_ids) ((snd f30)\<lparr>clock_reads := Suc (Suc (clock_reads w))\<rparr>)"
    using ne by (simp add: l_def login_world clk)
  have log: "issued (snd l) = issued w @
         [TeamQuery org_ids,
          UsageQuery (concat (map snd o2t)) (now - timedelta_days 7) now,
          UsageQuery (concat (map snd o2t)) (now - timedelta_days 14) (now - timedelta_days 7),
          RecordingsQuery (concat (map snd o2t)) (now - timedelta_days 14) (now - timedelta_days 7) now,
          ModelCountQuery Dashboard org_ids (now - timedelta_days 7) now,
          ModelCountQuery Insight org_ids (now - timedelta_days 7) now,
          UsageQuery (concat (map snd o2t)) (now - timedelta_days 30) now,
          UsageQuery (concat (map snd o2t)) (now - timedelta_days 60) (now - timedelta_days 30),
          RecordingsQuery (concat (map snd o2t)) (now - timedelta_days 60) (now - timedelta_days 30) now,
          ModelCountQuery Dashboard org_ids (now - timedelta_days 30) now,
          ModelCountQuery Insight org_ids (now - timedelta_days 30) now,
          LoginQuery org_ids]"
    by (simp add: wl w30 w7 w2_def)
  have reads: "clock_reads (snd l) = clock_reads w + 2"
    by (simp add: wl)
  have login: "map_option days_since_last_login
        (map_of (fst (aggregate_usage_signals_for_orgs st org_ids w)) org) =
      Some (case map_of (login_query st org_ids) org of
              Some (Some t) \<Rightarrow> Some (days (clock w (Suc (clock_reads w)) - t))
            | _ \<Rightarrow> None)" if "org \<in> set org_ids" for org
    using that
    by (simp add: R map_of_fold_update org_usage_signals_login l_def login_lookup clk
        split: option.splits)
  show "let now = clock w (clock_reads w);
        now' = clock w (Suc (clock_reads w));
        T = concat (map snd (fst (get_team_ids_for_orgs st org_ids w)));
        R = aggregate_usage_signals_for_orgs st org_ids w
    in issued (snd R) = issued w @
         [TeamQuery org_ids,
          UsageQuery T (now - timedelta_days 7) now,
          UsageQuery T (now - timedelta_days 14) (now - timedelta_days 7),
          RecordingsQuery T (now - timedelta_days 14) (now - timedelta_days 7) now,
          ModelCountQuery Dashboard org_ids (now - timedelta_days 7) now,
          ModelCountQuery Insight org_ids (now - timedelta_days 7) now,
          UsageQuery T (now - timedelta_days 30) now,
          UsageQuery T (now - timedelta_days 60) (now - timedelta_days 30),
          RecordingsQuery T (now - timedelta_days 60) (now - timedelta_days 30) now,
          ModelCountQuery Dashboard org_ids (now - timedelta_days 30) now,
          ModelCountQuery Insight org_ids (now - timedelta_days 30) now,
          LoginQuery org_ids] \<and>
       clock_reads (snd R) = clock_reads w + 2 \<and>
       (\<forall>org \<in> set org_ids.
          map_option days_since_last_login (map_of (fst R) org) =
            Some (case map_of (login_query st org_ids) org of
                    Some (Some t) \<Rightarrow> Some (days (now' - t))
                  | _ \<Rightarrow> None))"
    unfolding Let_def
    using log reads login
    by (simp only: R snd_conv fst_conv now_def[symmetric] o2t_def[symmetric]) simp
qed


theorem orchestration_clock_and_team_set_witness:
  "issued (snd (aggregate_usage_signals_for_orgs example_stores [''org-1'', ''org-2'']
      example_world)) =
     [TeamQuery [''org-1'', ''org-2''],
      UsageQuery [7] (259199999999 - timedelta_days 7) 259199999999,
      UsageQuery [7] (259199999999 - timedelta_days 14) (259199999999 - timedelta_days 7),
      RecordingsQuery [7] (259199999999 - timedelta_days 14) (259199999999 - timedelta_days 7)
        259199999999,
      ModelCountQuery Dashboard [''org-1'', ''org-2''] (259199999999 - timedelta_days 7)
        259199999999,
      ModelCountQuery Insight [''org-1'', ''org-2''] (259199999999 - timedelta_days 7)
        259199999999,
      UsageQuery [7] (259199999999 - timedelta_days 30) 259199999999,
      UsageQuery [7] (259199999999 - timedelta_days 60) (259199999999 - timedelta_days 30),
      RecordingsQuery [7] (259199999999 - timedelta_days 60) (259199999999 - timedelta_days 30)
        259199999999,
      ModelCountQuery Dashboard [''org-1'', ''org-2''] (259199999999 - timedelta_days 30)
        259199999999,
      ModelCountQuery Insight [''org-1'', ''org-2''] (259199999999 - timedelta_days 30)
        259199999999,
      LoginQuery [''org-1'', ''org-2'']] \<and>
   clock_reads (snd (aggregate_usage_signals_for_orgs example_stores [''org-1'', ''org-2'']
      example_world)) = 2 \<and>
   map_option days_since_last_login
     (map_of (fst (aggregate_usage_signals_for_orgs example_stores [''org-1'', ''org-2'']
        example_world)) ''org-1'') = Some (Some (days (259200000000 - 0)))"
proof -
  have teams: "concat (map snd (fst (get_team_ids_for_orgs example_stores [''org-1'', ''org-2'']
      example_world))) = [7]"
    by (simp add: example_teams)
  have login: "map_of (login_query example_stores [''org-1'', ''org-2'']) ''org-1'' = Some (Some 0)"
    by (simp add: login_query_def example_stores_def sql_max_def)
  have w: "clock_reads example_world = 0" "clock example_world 0 = 259199999999"
    "clock example_world (Suc 0) = 259200000000" "issued example_world = []"
    by (simp_all add: example_world_def)
  show ?thesis
    using orchestration_clock_and_team_set [of "[''org-1'', ''org-2'']" example_stores example_world]
    by (simp add: Let_def teams w login)
qed

text \<open>
  C4 as stated fails: on the example the 7-day window ends at the first clock reading, one
  microsecond short of three days after the last login of \<^verbatim>\<open>org-1\<close> (two whole days), and
  the record reports three days, counted from the second reading.
\<close>

theorem login_recency_reads_clock_again:
  "issued (snd (aggregate_usage_signals_for_orgs example_stores [''org-1'', ''org-2'']
      example_world)) ! 1 =
     UsageQuery [7] (clock example_world 0 - timedelta_days 7) (clock example_world 0) \<and>
   map_of (login_query example_stores [''org-1'', ''org-2'']) ''org-1'' = Some (Some 0) \<and>
   map_option days_since_last_login
     (map_of (fst (aggregate_usage_signals_for_orgs example_stores [''org-1'', ''org-2'']
        example_world)) ''org-1'') = Some (Some 3) \<and>
   days (clock example_world 0 - 0) = 2"
proof -
  have login: "map_of (login_query example_stores [''org-1'', ''org-2'']) ''org-1'' = Some (Some 0)"
    by (simp add: login_query_def example_stores_def sql_max_def)
  have now: "clock example_world 0 = 259199999999"
    by (simp add: example_world_def)
  have run: "issued (snd (aggregate_usage_signals_for_orgs example_stores [''org-1'', ''org-2'']
        example_world)) ! Suc 0 = UsageQuery [7] (- 345600000001) 259199999999"
    "map_option days_since_last_login
       (map_of (fst (aggregate_usage_signals_for_orgs example_stores [''org-1'', ''org-2'']
          example_world)) ''org-1'') = Some (Some 3)"
    unfolding example_run by simp_all
  show ?thesis
    by (simp add: login now run timedelta_days_def days_def)
qed

section \<open>Coverage of the input organizations\<close>

lemma orchestration_keys:
  "fst ` set (fst (aggregate_usage_signals_for_orgs st org_ids w)) = set org_ids \<and>
   distinct (map fst (fst (aggregate_usage_signals_for_orgs st org_ids w)))"
proof (cases rule: orchestration_cases[of org_ids st w])
  case empty
  then show ?thesis by simp
next
  case short
  have "fst ` set (dict_of (map (\<lambda>org_id. (org_id, UsageSignals_default)) org_ids)) = set org_ids"
    by (simp only: keys_dict_of) force
  then show ?thesis using short by (simp add: distinct_dict_of)
next
  case (full o2t p7 p30 lr w5)
  then show ?thesis
    by (simp add: keys_fold_update distinct_fold_update)
qed

lemma fetch_period_data_clock:
  "clock (snd (fetch_period_data st orgs tids b e pb w)) = clock w"
  "clock_reads (snd (fetch_period_data st orgs tids b e pb w)) = clock_reads w"
  by (simp_all add: fetch_period_data_def split_def Let_def
      get_teams_with_usage_signals_in_period_def get_teams_with_recordings_in_period_def
      get_org_dashboards_count_def get_org_insights_count_def get_org_model_count_def)

lemma orchestration_login_days:
  assumes ne: "org_ids \<noteq> []"
    and T: "concat (map snd (fst (get_team_ids_for_orgs st org_ids w))) \<noteq> []"
    and org: "org \<in> set org_ids"
  shows "map_option days_since_last_login
        (map_of (fst (aggregate_usage_signals_for_orgs st org_ids w)) org) =
      Some (case map_of (login_query st org_ids) org of
              Some (Some t) \<Rightarrow> Some (days (clock w (Suc (clock_reads w)) - t))
            | _ \<Rightarrow> None)"
  using org
  by (simp add: orchestration_full_explicit[OF ne T] Let_def map_of_fold_update
      org_usage_signals_login login_lookup fetch_period_data_clock split: option.splits)

text \<open>
  What holds on every input: the orchestration returns a dict whose keys are exactly the
  input ids. An input organization without a team gets the default record in every field
  but \<^const>\<open>days_since_last_login\<close>; that field is null when the call short-circuits
  and otherwise holds the days from the organization's most recent login to the second
  clock reading. When no input organization has a team, every organization gets the
  all-default record and no query follows the team-mapping query.
\<close>

theorem orchestration_covers_every_input:
  "fst ` set (fst (aggregate_usage_signals_for_orgs st org_ids w)) = set org_ids \<and>
   distinct (map fst (fst (aggregate_usage_signals_for_orgs st org_ids w))) \<and>
   (\<forall>org \<in> set org_ids. (\<forall>tid. (tid, org) \<notin> set (team_rows st)) \<longrightarrow>
      map_of (fst (aggregate_usage_signals_for_orgs st org_ids w)) org =
        Some (UsageSignals_default
          \<lparr>days_since_last_login :=
             if concat (map snd (fst (get_team_ids_for_orgs st org_ids w))) = [] then None
             else case map_of (login_query st org_ids) org of
                    Some (Some t) \<Rightarrow> Some (days (clock w (Suc (clock_reads w)) - t))
                  | _ \<Rightarrow> None\<rparr>)) \<and>
   ((\<forall>org \<in> set org_ids. \<forall>tid. (tid, org) \<notin> set (team_rows st)) \<longrightarrow>
      (\<forall>org \<in> set org_ids.
          map_of (fst (aggregate_usage_signals_for_orgs st org_ids w)) org =
            Some UsageSignals_default) \<and>
      issued (snd (aggregate_usage_signals_for_orgs st org_ids w)) =
        issued w @ (if org_ids = [] then [] else [TeamQuery org_ids]))"
proof -
  let ?R = "aggregate_usage_signals_for_orgs st org_ids w"
  let ?T = "concat (map snd (fst (get_team_ids_for_orgs st org_ids w)))"
  have default_lookup: "map_of (dict_of (map (\<lambda>org_id. (org_id, UsageSignals_default)) org_ids)) org =
      Some UsageSignals_default" if "org \<in> set org_ids" for org
    using that by (simp add: map_of_dict_of rev_map map_of_map_restrict restrict_map_def)
  have dflt: "UsageSignals_default\<lparr>days_since_last_login := None\<rparr> = UsageSignals_default"
    by (simp add: UsageSignals_default_def)
  have one: "map_of (fst ?R) org =
        Some (UsageSignals_default
          \<lparr>days_since_last_login :=
             if ?T = [] then None
             else case map_of (login_query st org_ids) org of
                    Some (Some t) \<Rightarrow> Some (days (clock w (Suc (clock_reads w)) - t))
                  | _ \<Rightarrow> None\<rparr>)"
    if org: "org \<in> set org_ids" and none: "\<forall>tid. (tid, org) \<notin> set (team_rows st)" for org
  proof (cases "?T = []")
    case True
    have ne: "org_ids \<noteq> []" using org by auto
    show ?thesis
      using orchestration_short[OF ne True] default_lookup[OF org] True
      by (simp add: dflt)
  next
    case False
    have ne: "org_ids \<noteq> []" using org by auto
    let ?o2t = "fst (get_team_ids_for_orgs st org_ids w)"
    have nt: "dict_get ?o2t org [] = []"
      by (rule team_ids_of_org_without_teams[OF none])
    obtain lr where r: "map_of (fst ?R) org =
        Some (UsageSignals_default\<lparr>days_since_last_login := dict_get lr org None\<rparr>)"
      using org nt
      by (simp add: orchestration_full_explicit[OF ne False] Let_def map_of_fold_update
          org_usage_signals_no_teams)
    have "days_since_last_login (UsageSignals_default\<lparr>days_since_last_login := dict_get lr org None\<rparr>) =
        (case map_of (login_query st org_ids) org of
            Some (Some t) \<Rightarrow> Some (days (clock w (Suc (clock_reads w)) - t))
          | _ \<Rightarrow> None)"
      using orchestration_login_days[OF ne False org] unfolding r by simp
    then have "dict_get lr org None =
        (case map_of (login_query st org_ids) org of
            Some (Some t) \<Rightarrow> Some (days (clock w (Suc (clock_reads w)) - t))
          | _ \<Rightarrow> None)"
      by simp
    then show ?thesis using r False by (simp del: concat_eq_Nil_conv)
  qed
  have all: "(\<forall>org \<in> set org_ids. map_of (fst ?R) org = Some UsageSignals_default) \<and>
      issued (snd ?R) = issued w @ (if org_ids = [] then [] else [TeamQuery org_ids])"
    if none: "\<forall>org \<in> set org_ids. \<forall>tid. (tid, org) \<notin> set (team_rows st)"
  proof (cases "org_ids = []")
    case True
    then show ?thesis by (simp add: aggregate_usage_signals_for_orgs_def)
  next
    case False
    have "?T = []"
      using none by (simp only: no_resolved_teams[OF False])
    from orchestration_short[OF False this] show ?thesis
      using False default_lookup by simp
  qed
  show ?thesis using orchestration_keys one all by blast
qed


theorem orchestration_covers_every_input_witness:
  "fst ` set (fst (aggregate_usage_signals_for_orgs example_stores [''org-1'', ''org-2'']
      example_world)) = {''org-1'', ''org-2''} \<and>
   map_of (fst (aggregate_usage_signals_for_orgs example_stores [''org-1'', ''org-2'']
      example_world)) ''org-2'' =
     Some (UsageSignals_default\<lparr>days_since_last_login := Some (days (259200000000 - 0))\<rparr>) \<and>
   map_of (fst (aggregate_usage_signals_for_orgs example_stores [''org-2''] example_world))
      ''org-2'' = Some UsageSignals_default \<and>
   issued (snd (aggregate_usage_signals_for_orgs example_stores [''org-2''] example_world)) =
      [TeamQuery [''org-2'']]"
proof -
  have rows: "team_rows example_stores = [(7, ''org-1'')]"
    by (simp add: example_stores_def)
  have log: "issued example_world = []" "clock_reads example_world = 0"
    "clock example_world (Suc 0) = 259200000000"
    by (simp_all add: example_world_def)
  have teams: "concat (map snd (fst (get_team_ids_for_orgs example_stores [''org-1'', ''org-2'']
      example_world))) = [7]"
    by (simp add: example_teams)
  have login: "map_of (login_query example_stores [''org-1'', ''org-2'']) ''org-2'' = Some (Some 0)"
    by (simp add: login_query_def example_stores_def sql_max_def)
  show ?thesis
    using orchestration_covers_every_input [of example_stores "[''org-1'', ''org-2'']" example_world]
      orchestration_covers_every_input [of example_stores "[''org-2'']" example_world]
    by (simp add: rows log teams login del: map_of_eq_Some_iff)
qed

text \<open>
  C5 at a failing input. Organization \<^verbatim>\<open>org-2\<close> has members and no team. Passed alone,
  the call short-circuits and \<^verbatim>\<open>org-2\<close> gets the all-default record. Passed together
  with \<^verbatim>\<open>org-1\<close>, which has a team, the loop gives \<^verbatim>\<open>org-2\<close> a record with
  \<^const>\<open>days_since_last_login\<close> set to 3, which is not the all-default record.
\<close>

theorem zero_team_org_not_all_default:
  "dict_get (fst (get_team_ids_for_orgs example_stores [''org-1'', ''org-2''] example_world))
      ''org-2'' [] = [] \<and>
   map_of (fst (aggregate_usage_signals_for_orgs example_stores [''org-2''] example_world))
      ''org-2'' = Some UsageSignals_default \<and>
   map_of (fst (aggregate_usage_signals_for_orgs example_stores [''org-1'', ''org-2'']
      example_world)) ''org-2'' = Some (UsageSignals_default\<lparr>days_since_last_login := Some 3\<rparr>) \<and>
   UsageSignals_default\<lparr>days_since_last_login := Some 3\<rparr> \<noteq> UsageSignals_default"
proof -
  have rows: "team_rows example_stores = [(7, ''org-1'')]"
    by (simp add: example_stores_def)
  have alone: "map_of (fst (aggregate_usage_signals_for_orgs example_stores [''org-2'']
      example_world)) ''org-2'' = Some UsageSignals_default"
    using orchestration_covers_every_input [of example_stores "[''org-2'']" example_world]
    by (simp add: rows del: map_of_eq_Some_iff)
  have batch: "map_of (fst (aggregate_usage_signals_for_orgs example_stores [''org-1'', ''org-2'']
      example_world)) ''org-2'' = Some (UsageSignals_default\<lparr>days_since_last_login := Some 3\<rparr>)"
    unfolding example_run by simp
  show ?thesis
    using alone batch by (simp add: example_teams dict_get_def UsageSignals_default_def)
qed

section \<open>Independence of the distinct-identity counter\<close>

lemma aggregate_ignores_distinct_ids:
  "aggregate_teams_to_org (map (\<lambda>t. t\<lparr>active_distinct_ids := 0\<rparr>) ts) = aggregate_teams_to_org ts"
  by (simp add: aggregate_teams_to_org_def PRODUCT_FLAGS_def comp_def list_ex_iff)

lemma aggregate_cong_distinct_ids:
  assumes "map (\<lambda>t. t\<lparr>active_distinct_ids := 0\<rparr>) ts = map (\<lambda>t. t\<lparr>active_distinct_ids := 0\<rparr>) ts'"
  shows "aggregate_teams_to_org ts = aggregate_teams_to_org ts'"
  using assms aggregate_ignores_distinct_ids[of ts] aggregate_ignores_distinct_ids[of ts']
  by simp

lemma usage_signals_of_row_zero:
  "(usage_signals_of_row row)\<lparr>active_distinct_ids := 0\<rparr> =
     usage_signals_of_row (case row of (r0, r1, r2, rest) \<Rightarrow> (r0, r1, 0, rest))"
  by (simp add: usage_signals_of_row_def split: prod.splits)

lemma lookup_zeroed:
  "map_option (\<lambda>t. t\<lparr>active_distinct_ids := 0\<rparr>) (map_of (map (\<lambda>s. (team_id s, s)) xs) k) =
     map_of (map (\<lambda>s. (team_id s, s)) (map (\<lambda>t. t\<lparr>active_distinct_ids := 0\<rparr>) xs)) k"
  by (induction xs) auto

lemma by_team_zeroed:
  "map_option (\<lambda>t. t\<lparr>active_distinct_ids := 0\<rparr>)
      (map_of (dict_of (map (\<lambda>s. (team_id s, s)) xs)) k) =
     map_of (map (\<lambda>s. (team_id s, s)) (rev (map (\<lambda>t. t\<lparr>active_distinct_ids := 0\<rparr>) xs))) k"
  using lookup_zeroed[of "rev xs" k] by (simp add: map_of_dict_of rev_map)

lemma team_signals_of_zeroed:
  "map (\<lambda>t. t\<lparr>active_distinct_ids := 0\<rparr>) (team_signals_of by_team tids) =
     concat (map (\<lambda>tid. case map_option (\<lambda>t. t\<lparr>active_distinct_ids := 0\<rparr>) (map_of by_team tid) of
                           Some s \<Rightarrow> [s] | None \<Rightarrow> []) tids)"
  by (induction tids) (auto simp: team_signals_of_def split: option.splits)

lemma aggregate_by_team_cong:
  assumes "map (\<lambda>t. t\<lparr>active_distinct_ids := 0\<rparr>) xs = map (\<lambda>t. t\<lparr>active_distinct_ids := 0\<rparr>) xs'"
  shows "aggregate_teams_to_org (team_signals_of (dict_of (map (\<lambda>s. (team_id s, s)) xs)) tids) =
     aggregate_teams_to_org (team_signals_of (dict_of (map (\<lambda>s. (team_id s, s)) xs')) tids)"
  by (rule aggregate_cong_distinct_ids) (simp only: team_signals_of_zeroed by_team_zeroed assms)

lemma usage_fetch_cong:
  assumes "\<forall>team_ids b e.
      map (\<lambda>(r0, r1, r2, rest). (r0, r1, 0::int, rest)) (events_result st team_ids b e) =
      map (\<lambda>(r0, r1, r2, rest). (r0, r1, 0, rest)) (er' team_ids b e)"
  shows "map (\<lambda>t. t\<lparr>active_distinct_ids := 0\<rparr>)
           (fst (get_teams_with_usage_signals_in_period (st\<lparr>events_result := er'\<rparr>) b e tids w)) =
         map (\<lambda>t. t\<lparr>active_distinct_ids := 0\<rparr>)
           (fst (get_teams_with_usage_signals_in_period st b e tids w))"
proof -
  have z: "map (\<lambda>t. t\<lparr>active_distinct_ids := 0\<rparr>) (map usage_signals_of_row rows) =
      map usage_signals_of_row (map (\<lambda>(r0, r1, r2, rest). (r0, r1, 0::int, rest)) rows)" for rows
    by (simp add: usage_signals_of_row_zero comp_def)
  have "map (\<lambda>t. t\<lparr>active_distinct_ids := 0\<rparr>) (map usage_signals_of_row (er' tids b e)) =
      map (\<lambda>t. t\<lparr>active_distinct_ids := 0\<rparr>)
        (map usage_signals_of_row (events_result st tids b e))"
    unfolding z using assms by simp
  then show ?thesis
    by (simp add: get_teams_with_usage_signals_in_period_def Let_def)
qed


lemma other_fetches_ignore_events_result:
  "get_teams_with_recordings_in_period (st\<lparr>events_result := er'\<rparr>) b e tids w =
     get_teams_with_recordings_in_period st b e tids w"
  "get_org_dashboards_count (st\<lparr>events_result := er'\<rparr>) orgs b e w =
     get_org_dashboards_count st orgs b e w"
  "get_org_insights_count (st\<lparr>events_result := er'\<rparr>) orgs b e w =
     get_org_insights_count st orgs b e w"
  "get_org_login_recency (st\<lparr>events_result := er'\<rparr>) orgs w = get_org_login_recency st orgs w"
  "get_team_ids_for_orgs (st\<lparr>events_result := er'\<rparr>) orgs w = get_team_ids_for_orgs st orgs w"
  by (simp_all add: get_teams_with_recordings_in_period_def get_org_dashboards_count_def
      get_org_insights_count_def get_org_model_count_def model_count_query_def model_rows_def
      get_org_login_recency_def login_query_def get_team_ids_for_orgs_def team_query_def)

lemma usage_fetch_world_cong:
  "snd (get_teams_with_usage_signals_in_period (st\<lparr>events_result := er'\<rparr>) b e tids w) =
   snd (get_teams_with_usage_signals_in_period st b e tids w)"
  by (simp add: usage_fetch_world)

lemma fetch_period_data_cong:
  fixes st :: stores and er' orgs T b e pb w
  assumes A: "\<forall>team_ids b e.
      map (\<lambda>(r0, r1, r2, rest). (r0, r1, 0::int, rest)) (events_result st team_ids b e) =
      map (\<lambda>(r0, r1, r2, rest). (r0, r1, 0, rest)) (er' team_ids b e)"
  defines "p' \<equiv> fetch_period_data (st\<lparr>events_result := er'\<rparr>) orgs T b e pb w"
    and "p \<equiv> fetch_period_data st orgs T b e pb w"
  shows "snd p' = snd p"
    and "recordings (fst p') = recordings (fst p)"
    and "dashboards (fst p') = dashboards (fst p)"
    and "insights (fst p') = insights (fst p)"
    and "aggregate_teams_to_org (team_signals_of (signals_by_team (fst p')) tids) =
         aggregate_teams_to_org (team_signals_of (signals_by_team (fst p)) tids)"
    and "aggregate_teams_to_org (team_signals_of (prev_signals_by_team (fst p')) tids) =
         aggregate_teams_to_org (team_signals_of (prev_signals_by_team (fst p)) tids)"
proof -
  note w = usage_fetch_world_cong other_fetches_ignore_events_result
  show "snd p' = snd p" "recordings (fst p') = recordings (fst p)"
    "dashboards (fst p') = dashboards (fst p)" "insights (fst p') = insights (fst p)"
    unfolding p'_def p_def by (simp_all add: fetch_period_data_def split_def Let_def w)
  show "aggregate_teams_to_org (team_signals_of (signals_by_team (fst p')) tids) =
         aggregate_teams_to_org (team_signals_of (signals_by_team (fst p)) tids)"
    unfolding p'_def p_def
    by (simp add: fetch_period_data_def split_def Let_def
        aggregate_by_team_cong[OF usage_fetch_cong[OF A]])
  show "aggregate_teams_to_org (team_signals_of (prev_signals_by_team (fst p')) tids) =
         aggregate_teams_to_org (team_signals_of (prev_signals_by_team (fst p)) tids)"
    unfolding p'_def p_def
    by (simp add: fetch_period_data_def split_def Let_def w
        aggregate_by_team_cong[OF usage_fetch_cong[OF A]])
qed

lemma org_usage_signals_cong:
  assumes "recordings p7' = recordings p7" "dashboards p7' = dashboards p7"
    "insights p7' = insights p7"
    "\<And>tids. aggregate_teams_to_org (team_signals_of (signals_by_team p7') tids) =
         aggregate_teams_to_org (team_signals_of (signals_by_team p7) tids)"
    "\<And>tids. aggregate_teams_to_org (team_signals_of (prev_signals_by_team p7') tids) =
         aggregate_teams_to_org (team_signals_of (prev_signals_by_team p7) tids)"
    "recordings p30' = recordings p30" "dashboards p30' = dashboards p30"
    "insights p30' = insights p30"
    "\<And>tids. aggregate_teams_to_org (team_signals_of (signals_by_team p30') tids) =
         aggregate_teams_to_org (team_signals_of (signals_by_team p30) tids)"
    "\<And>tids. aggregate_teams_to_org (team_signals_of (prev_signals_by_team p30') tids) =
         aggregate_teams_to_org (team_signals_of (prev_signals_by_team p30) tids)"
  shows "org_usage_signals o2t p7' p30' lr org = org_usage_signals o2t p7 p30 lr org"
  unfolding org_usage_signals_def Let_def by (simp only: assms)


lemma orchestration_ignores_distinct_ids:
  assumes A: "\<forall>team_ids b e.
      map (\<lambda>(r0, r1, r2, rest). (r0, r1, 0::int, rest)) (events_result st team_ids b e) =
      map (\<lambda>(r0, r1, r2, rest). (r0, r1, 0, rest)) (er' team_ids b e)"
  shows "aggregate_usage_signals_for_orgs (st\<lparr>events_result := er'\<rparr>) org_ids w =
         aggregate_usage_signals_for_orgs st org_ids w"
proof (cases "org_ids = []")
  case True
  then show ?thesis by (simp add: aggregate_usage_signals_for_orgs_def)
next
  case ne: False
  let ?st' = "st\<lparr>events_result := er'\<rparr>"
  note same = other_fetches_ignore_events_result
  show ?thesis
  proof (cases "concat (map snd (fst (get_team_ids_for_orgs st org_ids w))) = []")
    case True
    have "concat (map snd (fst (get_team_ids_for_orgs ?st' org_ids w))) = []"
      unfolding same by (rule True)
    from orchestration_short[OF ne this] orchestration_short[OF ne True]
    show ?thesis by simp
  next
    case False
    have F': "concat (map snd (fst (get_team_ids_for_orgs ?st' org_ids w))) \<noteq> []"
      unfolding same by (rule False)
    note c7 = fetch_period_data_cong[OF A]
    show ?thesis
      unfolding orchestration_full_explicit[OF ne False] orchestration_full_explicit[OF ne F']
        Let_def same
      by (simp only: c7(1) org_usage_signals_cong[OF c7(2-6) c7(2-6)])
  qed
qed

text \<open>
  C10. Two lists of team signals that agree once \<^const>\<open>active_distinct_ids\<close> is blanked
  have the same aggregate; and two event stores whose answers agree in every column but
  the distinct-identity count (column 2 of a row) make the orchestration return the same
  records and issue the same queries: no output depends on \<^const>\<open>active_distinct_ids\<close>.
\<close>

theorem aggregation_ignores_active_distinct_ids:
  "(map (\<lambda>t. t\<lparr>active_distinct_ids := 0\<rparr>) ts = map (\<lambda>t. t\<lparr>active_distinct_ids := 0\<rparr>) ts' \<longrightarrow>
      aggregate_teams_to_org ts = aggregate_teams_to_org ts') \<and>
   ((\<forall>team_ids b e.
        map (\<lambda>(r0, r1, r2, rest). (r0, r1, 0::int, rest)) (events_result st team_ids b e) =
        map (\<lambda>(r0, r1, r2, rest). (r0, r1, 0, rest)) (er' team_ids b e)) \<longrightarrow>
      aggregate_usage_signals_for_orgs (st\<lparr>events_result := er'\<rparr>) org_ids w =
      aggregate_usage_signals_for_orgs st org_ids w)"
  using aggregate_cong_distinct_ids orchestration_ignores_distinct_ids by blast

theorem aggregation_ignores_active_distinct_ids_witness:
  "aggregate_teams_to_org [example_team_1, example_team_2] =
     aggregate_teams_to_org [example_team_1\<lparr>active_distinct_ids := 5\<rparr>,
                             example_team_2\<lparr>active_distinct_ids := 77\<rparr>] \<and>
   aggregate_usage_signals_for_orgs
      (example_stores\<lparr>events_result := \<lambda>team_ids b e. [(7, 100, 12345, 50, 1000, 1, 0, 0, 0)]\<rparr>)
      [''org-1'', ''org-2''] example_world =
   aggregate_usage_signals_for_orgs example_stores [''org-1'', ''org-2''] example_world"
  using aggregation_ignores_active_distinct_ids
    [of "[example_team_1, example_team_2]"
        "[example_team_1\<lparr>active_distinct_ids := 5\<rparr>, example_team_2\<lparr>active_distinct_ids := 77\<rparr>]"
        example_stores "\<lambda>team_ids b e. [(7, 100, 12345, 50, 1000, 1, 0, 0, 0)]"
        "[''org-1'', ''org-2'']" example_world]
  by (simp add: example_stores_def)

section \<open>Session recordings in a period\<close>

lemma lookback_of_rows:
  "t \<in> set tids \<Longrightarrow>
   [ts. (t', s', ts) \<leftarrow> filter (\<lambda>(t, s, ts). t \<in> set tids \<and> ts \<ge> pb \<and> ts < e) table, t' = t \<and> s' = s] =
     lookback_timestamps table pb e t s"
  by (induction table) (auto simp: lookback_timestamps_def session_timestamps_def split: if_splits)

lemma group_keys:
  "(t, s) \<in> set (map (\<lambda>(t, s, ts). (t, s))
       (filter (\<lambda>(t, s, ts). t \<in> set tids \<and> ts \<ge> pb \<and> ts < e) table)) \<longleftrightarrow>
   t \<in> set tids \<and> lookback_timestamps table pb e t s \<noteq> []"
  by (induction table) (auto simp: lookback_timestamps_def session_timestamps_def split: if_splits)

lemma recordings_inner_eq:
  "recordings_inner table tids pb e =
     map (\<lambda>(t, s). (t, s, Min (set (lookback_timestamps table pb e t s))))
       (remdups (map (\<lambda>(t, s, ts). (t, s))
          (filter (\<lambda>(t, s, ts). t \<in> set tids \<and> ts \<ge> pb \<and> ts < e) table)))"
proof -
  have "Min (set [ts. (t', s', ts) \<leftarrow> filter (\<lambda>(t, s, ts). t \<in> set tids \<and> ts \<ge> pb \<and> ts < e) table,
                      t' = t \<and> s' = s]) =
        Min (set (lookback_timestamps table pb e t s))"
    if "(t, s) \<in> set (remdups (map (\<lambda>(t, s, ts). (t, s))
          (filter (\<lambda>(t, s, ts). t \<in> set tids \<and> ts \<ge> pb \<and> ts < e) table)))" for t s
  proof -
    have "t \<in> set tids" using that unfolding set_remdups group_keys by simp
    then show ?thesis by (simp only: lookback_of_rows)
  qed
  then show ?thesis
    unfolding recordings_inner_def Let_def
    by (intro map_cong[OF refl]) (auto simp only: split_paired_all prod.case)
qed

lemma lookback_Min_less:
  assumes "lookback_timestamps table pb e t s \<noteq> []"
  shows "Min (set (lookback_timestamps table pb e t s)) < e"
proof -
  have "Min (set (lookback_timestamps table pb e t s)) \<in> set (lookback_timestamps table pb e t s)"
    using assms by (intro Min_in) simp_all
  then show ?thesis by (simp add: lookback_timestamps_def)
qed

lemma lookback_session_known:
  assumes "lookback_timestamps table pb e t s \<noteq> []"
  shows "s \<in> set (sessions_of_team table t)"
proof -
  obtain ts where "ts \<in> set (session_timestamps table t s)"
    using assms by (auto simp: lookback_timestamps_def filter_empty_conv)
  then show ?thesis
    by (auto simp: session_timestamps_def sessions_of_team_def)
qed


lemma count_per_team:
  assumes t: "t \<in> set tids"
  shows "length (filter (\<lambda>(t', s, first_ts). t' = t \<and> first_ts \<ge> b \<and> first_ts < e)
            (recordings_inner table tids pb e)) =
         length (counted_sessions table pb b e t)"
proof -
  let ?groups = "remdups (map (\<lambda>(t, s, ts). (t, s))
          (filter (\<lambda>(t, s, ts). t \<in> set tids \<and> ts \<ge> pb \<and> ts < e) table))"
  let ?m = "\<lambda>t s. Min (set (lookback_timestamps table pb e t s))"
  let ?Q = "\<lambda>k. fst k = t \<and> ?m (fst k) (snd k) \<ge> b \<and> ?m (fst k) (snd k) < e"
  have "length (filter (\<lambda>(t', s, first_ts). t' = t \<and> first_ts \<ge> b \<and> first_ts < e)
            (recordings_inner table tids pb e)) = length (filter ?Q ?groups)"
    unfolding recordings_inner_eq filter_map length_map
    by (rule arg_cong[where f = length], rule filter_cong[OF refl]) (simp add: split_def)
  also have "\<dots> = card {k \<in> set ?groups. ?Q k}"
    by (simp add: distinct_length_filter Int_def conj_commute)
  also have "{k \<in> set ?groups. ?Q k} = (\<lambda>s. (t, s)) ` set (counted_sessions table pb b e t)"
  proof (intro set_eqI iffI)
    fix k assume "k \<in> {k \<in> set ?groups. ?Q k}"
    then obtain s where k: "k = (t, s)" and g: "(t, s) \<in> set ?groups" and m: "b \<le> ?m t s"
      by (cases k) auto
    from g have ne: "lookback_timestamps table pb e t s \<noteq> []"
      unfolding set_remdups group_keys by simp
    from lookback_session_known[OF ne] ne m
    show "k \<in> (\<lambda>s. (t, s)) ` set (counted_sessions table pb b e t)"
      by (simp add: k counted_sessions_def)
  next
    fix k assume "k \<in> (\<lambda>s. (t, s)) ` set (counted_sessions table pb b e t)"
    then obtain s where k: "k = (t, s)"
      and ne: "lookback_timestamps table pb e t s \<noteq> []" and m: "b \<le> ?m t s"
      by (auto simp: counted_sessions_def)
    have "(t, s) \<in> set ?groups"
      unfolding set_remdups group_keys using t ne by simp
    then show "k \<in> {k \<in> set ?groups. ?Q k}"
      using m lookback_Min_less[OF ne] by (simp add: k)
  qed
  also have "card ((\<lambda>s. (t, s)) ` set (counted_sessions table pb b e t)) =
      card (set (counted_sessions table pb b e t))"
    by (rule card_image) (simp add: inj_on_def)
  also have "\<dots> = length (counted_sessions table pb b e t)"
    by (rule distinct_card) (simp add: counted_sessions_def sessions_of_team_def)
  finally show ?thesis .
qed

lemma no_group_no_count:
  assumes "t \<notin> fst ` set (recordings_inner table tids pb e)"
  shows "filter (\<lambda>(t', s, first_ts). t' = t \<and> first_ts \<ge> b \<and> first_ts < e)
            (recordings_inner table tids pb e) = []"
  using assms by (force simp: filter_empty_conv)

lemma inner_teams: "fst ` set (recordings_inner table tids pb e) \<subseteq> set tids"
  by (auto simp: recordings_inner_def)

lemma map_of_recordings_query:
  "map_of (recordings_query table tids pb b e) t =
     (if t \<in> set tids \<and> counted_sessions table pb b e t \<noteq> []
      then Some (int (length (counted_sessions table pb b e t))) else None)"
proof -
  let ?inner = "recordings_inner table tids pb e"
  let ?cnt = "\<lambda>t. int (length (filter (\<lambda>(t', s, first_ts). t' = t \<and> first_ts \<ge> b \<and> first_ts < e) ?inner))"
  have q: "recordings_query table tids pb b e =
      filter (\<lambda>(t, c). c > 0) (map (\<lambda>t. (t, ?cnt t)) (remdups (map fst ?inner)))"
    by (simp add: recordings_query_def Let_def)
  have look: "map_of (filter (\<lambda>(t, c). c > 0) (map (\<lambda>t. (t, f t)) ks)) t =
      (if t \<in> set ks \<and> f t > 0 then Some (f t) else None)" for f :: "int \<Rightarrow> int" and ks
    by (induction ks) auto
  show ?thesis
  proof (cases "t \<in> set tids")
    case True
    have zero: "?cnt t = 0" if "t \<notin> set (remdups (map fst ?inner))"
      using that no_group_no_count[of t table tids pb e b] by simp
    show ?thesis
      using True zero count_per_team[OF True, of b e table pb]
      by (auto simp: q look)
  next
    case False
    then have "t \<notin> set (remdups (map fst ?inner))"
      using inner_teams[of table tids pb e] by auto
    then show ?thesis using False by (simp add: q look)
  qed
qed

lemma distinct_recordings_query: "distinct (map fst (recordings_query table tids pb b e))"
  by (simp add: recordings_query_def Let_def distinct_map_filter comp_def)


lemma map_of_recordings_in_period:
  assumes "team_ids \<noteq> []" "b < e"
  shows "map_of (fst (get_teams_with_recordings_in_period st b e team_ids w)) t =
     (if t \<in> set team_ids \<and> counted_sessions (session_replay_events st) (b - (e - b)) b e t \<noteq> []
      then Some (int (length (counted_sessions (session_replay_events st) (b - (e - b)) b e t)))
      else None)"
  using assms
  by (simp add: get_teams_with_recordings_in_period_def Let_def map_of_dict_of
      map_of_rev_distinct[OF distinct_recordings_query] map_of_recordings_query)

lemma Min_lookback:
  assumes all: "\<forall>x \<in> set xs. pb \<le> x"
    and ne: "filter (\<lambda>ts. pb \<le> ts \<and> ts < e) xs \<noteq> []"
  shows "Min (set xs) = Min (set (filter (\<lambda>ts. pb \<le> ts \<and> ts < (e::int)) xs))"
proof (rule Min_eqI)
  let ?f = "filter (\<lambda>ts. pb \<le> ts \<and> ts < e) xs"
  have "set ?f \<noteq> {}" using ne set_empty[of ?f] by blast
  then have m: "Min (set ?f) \<in> set ?f" by (rule Min_in[OF finite_set])
  show "finite (set xs)" by simp
  show "Min (set ?f) \<in> set xs" using m by simp
  fix y assume y: "y \<in> set xs"
  show "Min (set ?f) \<le> y"
  proof (cases "y < e")
    case True
    then have "y \<in> set ?f" using y all by simp
    then show ?thesis by (intro Min_le) simp_all
  next
    case False
    then show ?thesis using m by simp
  qed
qed

lemma session_has_timestamps:
  "s \<in> set (sessions_of_team table t) \<longleftrightarrow> session_timestamps table t s \<noteq> []"
  unfolding sessions_of_team_def session_timestamps_def
  by (induction table) (auto split: if_splits)

lemma counted_sessions_first_seen:
  assumes all: "\<forall>(t', s, ts) \<in> set table. t' = t \<longrightarrow> pb \<le> ts"
  shows "counted_sessions table pb b e t =
     filter (\<lambda>s. b \<le> first_seen table t s \<and> first_seen table t s < e) (sessions_of_team table t)"
  unfolding counted_sessions_def
proof (rule filter_cong[OF refl])
  fix s assume "s \<in> set (sessions_of_team table t)"
  then have ne: "session_timestamps table t s \<noteq> []"
    using session_has_timestamps by blast
  have ge: "\<forall>x \<in> set (session_timestamps table t s). pb \<le> x"
    using all by (auto simp: session_timestamps_def)
  let ?l = "lookback_timestamps table pb e t s"
  show "(?l \<noteq> [] \<and> b \<le> Min (set ?l)) =
        (b \<le> first_seen table t s \<and> first_seen table t s < e)"
  proof (cases "?l = []")
    case True
    then have "\<forall>x \<in> set (session_timestamps table t s). e \<le> x"
      using ge by (auto simp: lookback_timestamps_def filter_empty_conv)
    then have "e \<le> first_seen table t s"
      using ne by (simp add: first_seen_def)
    then show ?thesis using True by simp
  next
    case False
    then have eq: "first_seen table t s = Min (set ?l)"
      unfolding first_seen_def lookback_timestamps_def by (intro Min_lookback[OF ge])
    show ?thesis using False lookback_Min_less[OF False] by (simp add: eq)
  qed
qed

lemma counted_session_first_seen:
  assumes s: "s \<in> set (sessions_of_team table t)"
    and ge: "\<forall>x \<in> set (session_timestamps table t s). pb \<le> x"
  shows "s \<in> set (counted_sessions table pb b e t) \<longleftrightarrow>
         b \<le> first_seen table t s \<and> first_seen table t s < e"
proof -
  have ne: "session_timestamps table t s \<noteq> []"
    using s session_has_timestamps by blast
  let ?l = "lookback_timestamps table pb e t s"
  have "(?l \<noteq> [] \<and> b \<le> Min (set ?l)) =
        (b \<le> first_seen table t s \<and> first_seen table t s < e)"
  proof (cases "?l = []")
    case True
    then have "\<forall>x \<in> set (session_timestamps table t s). e \<le> x"
      using ge by (auto simp: lookback_timestamps_def filter_empty_conv)
    then have "e \<le> first_seen table t s"
      using ne by (simp add: first_seen_def)
    then show ?thesis using True by simp
  next
    case False
    then have eq: "first_seen table t s = Min (set ?l)"
      unfolding first_seen_def lookback_timestamps_def by (intro Min_lookback[OF ge])
    show ?thesis using False lookback_Min_less[OF False] by (simp add: eq)
  qed
  then show ?thesis using s by (simp add: counted_sessions_def)
qed

text \<open>
  What holds on every input. For a window \<open>[begin, end)\<close> and a team set,
  \<^const>\<open>get_teams_with_recordings_in_period\<close> returns the empty dict without a query when
  the team set is empty or \<open>begin \<ge> end\<close>; otherwise it sends one query whose lookback
  starts one window-length before \<open>begin\<close>, and the dict has an entry exactly for the given
  teams with at least one counted session, holding their number, where a session is
  counted when the least of its timestamps within \<open>[previous_begin, end)\<close> is not before
  \<open>begin\<close>. A session none of whose rows is older than \<open>previous_begin\<close> is counted exactly
  when its first-seen timestamp falls inside the window.
\<close>

theorem recordings_in_period_spec:
  "((team_ids = [] \<or> b \<ge> e) \<longrightarrow>
      get_teams_with_recordings_in_period st b e team_ids w = ([], w)) \<and>
   (team_ids \<noteq> [] \<and> b < e \<longrightarrow>
      snd (get_teams_with_recordings_in_period st b e team_ids w) =
        issue (RecordingsQuery team_ids (b - (e - b)) b e) w \<and>
      (\<forall>t. map_of (fst (get_teams_with_recordings_in_period st b e team_ids w)) t =
         (if t \<in> set team_ids \<and>
             counted_sessions (session_replay_events st) (b - (e - b)) b e t \<noteq> []
          then Some (int (length
                 (counted_sessions (session_replay_events st) (b - (e - b)) b e t)))
          else None))) \<and>
   ((\<forall>(t', s, ts) \<in> set (session_replay_events st). t' = t \<longrightarrow> b - (e - b) \<le> ts) \<longrightarrow>
      counted_sessions (session_replay_events st) (b - (e - b)) b e t =
        filter (\<lambda>s. b \<le> first_seen (session_replay_events st) t s \<and>
                    first_seen (session_replay_events st) t s < e)
          (sessions_of_team (session_replay_events st) t)) \<and>
   (s \<in> set (sessions_of_team (session_replay_events st) t) \<and>
    (\<forall>ts \<in> set (session_timestamps (session_replay_events st) t s). b - (e - b) \<le> ts) \<longrightarrow>
      (s \<in> set (counted_sessions (session_replay_events st) (b - (e - b)) b e t) \<longleftrightarrow>
       b \<le> first_seen (session_replay_events st) t s \<and>
       first_seen (session_replay_events st) t s < e))"
proof -
  have short: "(team_ids = [] \<or> b \<ge> e) \<longrightarrow>
      get_teams_with_recordings_in_period st b e team_ids w = ([], w)"
    by (auto simp: get_teams_with_recordings_in_period_def)
  have effect: "team_ids \<noteq> [] \<and> b < e \<longrightarrow>
      snd (get_teams_with_recordings_in_period st b e team_ids w) =
        issue (RecordingsQuery team_ids (b - (e - b)) b e) w"
    by (simp add: recordings_fetch_world)
  show ?thesis
    using short effect map_of_recordings_in_period[of team_ids b e st w]
      counted_sessions_first_seen[of "session_replay_events st" t "b - (e - b)" b e]
      counted_session_first_seen[of s "session_replay_events st" t "b - (e - b)" b e]
    by blast
qed

theorem recordings_in_period_spec_witness:
  "get_teams_with_recordings_in_period
      (example_stores\<lparr>session_replay_events := example_replay_table\<rparr>) 7 0 [1, 2] example_world =
     ([], example_world) \<and>
   snd (get_teams_with_recordings_in_period
      (example_stores\<lparr>session_replay_events := example_replay_table\<rparr>) 0 7 [1, 2] example_world) =
     issue (RecordingsQuery [1, 2] (- 7) 0 7) example_world \<and>
   map_of (fst (get_teams_with_recordings_in_period
      (example_stores\<lparr>session_replay_events := example_replay_table\<rparr>) 0 7 [1, 2] example_world))
      2 = Some 1 \<and>
   counted_sessions example_replay_table (- 7) 0 7 2 = [''t''] \<and>
   filter (\<lambda>s. 0 \<le> first_seen example_replay_table 2 s \<and> first_seen example_replay_table 2 s < 7)
     (sessions_of_team example_replay_table 2) = [''t''] \<and>
   (''t'' \<in> set (counted_sessions example_replay_table (- 7) 0 7 2)) =
     (0 \<le> first_seen example_replay_table 2 ''t'' \<and> first_seen example_replay_table 2 ''t'' < 7)"
proof -
  have c: "counted_sessions example_replay_table (- 7) 0 7 2 = [''t'']"
    by (simp add: counted_sessions_def sessions_of_team_def lookback_timestamps_def
        session_timestamps_def example_replay_table_def)
  have rows: "session_replay_events (example_stores\<lparr>session_replay_events := example_replay_table\<rparr>) =
      example_replay_table" by simp
  have ge: "\<forall>(t', s, ts) \<in> set example_replay_table. t' = 2 \<longrightarrow> - 7 \<le> ts"
    by (simp add: example_replay_table_def)
  note degenerate = recordings_in_period_spec
      [where team_ids = "[1, 2]" and b = 7 and e = 0 and w = example_world and t = 2
         and st = "example_stores\<lparr>session_replay_events := example_replay_table\<rparr>"]
  note window = recordings_in_period_spec
      [where team_ids = "[1, 2]" and b = 0 and e = 7 and w = example_world and t = 2
         and s = "''t''"
         and st = "example_stores\<lparr>session_replay_events := example_replay_table\<rparr>",
       unfolded rows]
  have known: "''t'' \<in> set (sessions_of_team example_replay_table 2)"
    "\<forall>ts \<in> set (session_timestamps example_replay_table 2 ''t''). - 7 \<le> ts"
    by (simp_all add: sessions_of_team_def session_timestamps_def example_replay_table_def)
  have p: "(''t'' \<in> set (counted_sessions example_replay_table (- 7) 0 7 2)) =
     (0 \<le> first_seen example_replay_table 2 ''t'' \<and> first_seen example_replay_table 2 ''t'' < 7)"
    using window known by simp
  have a: "get_teams_with_recordings_in_period
      (example_stores\<lparr>session_replay_events := example_replay_table\<rparr>) 7 0 [1, 2] example_world =
     ([], example_world)"
    using degenerate by simp
  have b: "snd (get_teams_with_recordings_in_period
      (example_stores\<lparr>session_replay_events := example_replay_table\<rparr>) 0 7 [1, 2] example_world) =
     issue (RecordingsQuery [1, 2] (- 7) 0 7) example_world"
    using window by simp
  have m: "map_of (fst (get_teams_with_recordings_in_period
      (example_stores\<lparr>session_replay_events := example_replay_table\<rparr>) 0 7 [1, 2] example_world))
      2 = Some 1"
    using window[THEN conjunct2, THEN conjunct1, THEN mp, THEN conjunct2, THEN spec, of 2]
    by (simp add: c)
  have "counted_sessions example_replay_table (- 7) 0 7 2 =
     filter (\<lambda>s. 0 \<le> first_seen example_replay_table 2 s \<and> first_seen example_replay_table 2 s < 7)
       (sessions_of_team example_replay_table 2)"
    using window ge by simp
  then have f: "filter (\<lambda>s. 0 \<le> first_seen example_replay_table 2 s \<and>
        first_seen example_replay_table 2 s < 7) (sessions_of_team example_replay_table 2) = [''t'']"
    by (simp add: c)
  show ?thesis
    using a b m c f p by blast
qed

text \<open>
  C8 at a failing input. On the example table with window \<open>[0, 7)\<close>, session \<^verbatim>\<open>s\<close> is the
  only session of team 1; it started at \<open>-15\<close>, before the lookback of the window begins,
  and has a later row at 1. The function returns the count 1 for team 1, though no
  session of team 1 started (was first seen) within the window.
\<close>

theorem long_session_counted_in_window:
  "map_of (fst (get_teams_with_recordings_in_period
      (example_stores\<lparr>session_replay_events := example_replay_table\<rparr>) 0 7 [1, 2] example_world))
      1 = Some 1 \<and>
   sessions_of_team example_replay_table 1 = [''s''] \<and>
   first_seen example_replay_table 1 ''s'' = - 15 \<and>
   filter (\<lambda>s. 0 \<le> first_seen example_replay_table 1 s \<and> first_seen example_replay_table 1 s < 7)
     (sessions_of_team example_replay_table 1) = []"
proof -
  have c: "counted_sessions example_replay_table (- 7) 0 7 1 = [''s'']"
    by (simp add: counted_sessions_def sessions_of_team_def lookback_timestamps_def
        session_timestamps_def example_replay_table_def)
  have m: "map_of (fst (get_teams_with_recordings_in_period
      (example_stores\<lparr>session_replay_events := example_replay_table\<rparr>) 0 7 [1, 2] example_world))
      1 = Some 1"
    by (simp add: map_of_recordings_in_period c)
  have f: "sessions_of_team example_replay_table 1 = [''s'']"
    "first_seen example_replay_table 1 ''s'' = - 15"
    by (simp_all add: sessions_of_team_def first_seen_def session_timestamps_def
        example_replay_table_def)
  show ?thesis by (simp add: m f)
qed

section \<open>CRM record translation\<close>

lemma field_names:
  "map fst field_name_table =
     [''posthog_active_users_7d__c'', ''posthog_active_users_30d__c'',
      ''posthog_sessions_7d__c'', ''posthog_sessions_30d__c'',
      ''posthog_events_per_session_7d__c'', ''posthog_events_per_session_30d__c'',
      ''posthog_insights_per_user_7d__c'', ''posthog_insights_per_user_30d__c'',
      ''posthog_dashboards_per_user_7d__c'', ''posthog_dashboards_per_user_30d__c'',
      ''posthog_active_users_7d_momentum__c'', ''posthog_active_users_30d_momentum__c'',
      ''posthog_sessions_7d_momentum__c'', ''posthog_sessions_30d_momentum__c'',
      ''posthog_eps_7d_momentum__c'', ''posthog_eps_30d_momentum__c'',
      ''posthog_last_login_days__c'']"
  by (simp add: field_name_table_def)

lemma field_names_distinct: "distinct (map fst field_name_table)"
  unfolding field_names by simp

lemma field_names_fresh:
  "''Id'' \<notin> set (map fst field_name_table)"
  "''posthog_products_7d__c'' \<notin> set (map fst field_name_table)"
  "''posthog_products_30d__c'' \<notin> set (map fst field_name_table)"
  unfolding field_names by simp_all

lemma written_fields_lookup:
  assumes "distinct (map fst tbl)"
  shows "map_of [(name, get s). (name, get) \<leftarrow> tbl, get s \<noteq> SfNull] n =
     (case map_of tbl n of
        None \<Rightarrow> None
      | Some g \<Rightarrow> if g s = SfNull then None else Some (g s))"
  using assms
proof (induction tbl)
  case Nil
  then show ?case by simp
next
  case (Cons p tbl)
  obtain name get where p: "p = (name, get)" by (cases p)
  have "n = name \<Longrightarrow> map_of tbl n = None"
    using Cons.prems by (simp add: p map_of_eq_None_iff)
  then show ?case
    using Cons by (auto simp: p split: option.splits)
qed


lemma record_lookup:
  "map_of (prepare_salesforce_update_record dedup account_id s) n =
     (if n = ''Id'' then Some (SfStr account_id)
      else case map_of field_name_table n of
        Some g \<Rightarrow> if g s = SfNull then None else Some (g s)
      | None \<Rightarrow>
          if n = ''posthog_products_7d__c''
          then Some (SfStr (products_string dedup (products_activated_7d s)))
          else if n = ''posthog_products_30d__c''
          then Some (SfStr (products_string dedup (products_activated_30d s)))
          else None)"
proof -
  let ?w = "[(name, get s). (name, get) \<leftarrow> field_name_table, get s \<noteq> SfNull]"
  let ?p = "[(''posthog_products_7d__c'',
                SfStr (products_string dedup (products_activated_7d s))),
      (''posthog_products_30d__c'', SfStr (products_string dedup (products_activated_30d s)))]"
  have r: "prepare_salesforce_update_record dedup account_id s =
      (''Id'', SfStr account_id) # ?w @ ?p"
    by (simp add: prepare_salesforce_update_record_def)
  have w: "map_of ?w n = (case map_of field_name_table n of
        None \<Rightarrow> None | Some g \<Rightarrow> if g s = SfNull then None else Some (g s))"
    by (rule written_fields_lookup[OF field_names_distinct])
  have fresh: "map_of field_name_table ''posthog_products_7d__c'' = None"
    "map_of field_name_table ''posthog_products_30d__c'' = None"
    using field_names_fresh by (simp_all add: map_of_eq_None_iff)
  have p: "map_of ?p n = (if n = ''posthog_products_7d__c''
          then Some (SfStr (products_string dedup (products_activated_7d s)))
          else if n = ''posthog_products_30d__c''
          then Some (SfStr (products_string dedup (products_activated_30d s)))
          else None)"
    by simp
  show ?thesis
    unfolding r
    by (simp only: map_of.simps fst_conv snd_conv fun_upd_apply map_of_append map_add_def w p)
       (auto simp: fresh split: option.splits)
qed

lemma sf_values:
  "sf_int n = SfInt n"
  "(if sf_opt_float x = SfNull then None else Some (sf_opt_float x)) = map_option SfFloat x"
  "(if sf_opt_int d = SfNull then None else Some (sf_opt_int d)) = map_option SfInt d"
  by (simp_all add: sf_int_def sf_opt_float_def sf_opt_int_def split: option.splits)

lemma record_int_fields:
  fixes dedup account_id s r
  defines "r \<equiv> map_of (prepare_salesforce_update_record dedup account_id s)"
  shows "r ''posthog_active_users_7d__c'' = Some (SfInt (active_users_7d s))"
    and "r ''posthog_active_users_30d__c'' = Some (SfInt (active_users_30d s))"
    and "r ''posthog_sessions_7d__c'' = Some (SfInt (sessions_7d s))"
    and "r ''posthog_sessions_30d__c'' = Some (SfInt (sessions_30d s))"
    and "r ''posthog_last_login_days__c'' = map_option SfInt (days_since_last_login s)"
  unfolding r_def record_lookup
  by (simp_all add: field_name_table_def sf_values)

lemma record_float_fields:
  fixes dedup account_id s r
  defines "r \<equiv> map_of (prepare_salesforce_update_record dedup account_id s)"
  shows "r ''posthog_events_per_session_7d__c'' = map_option SfFloat (events_per_session_7d s)"
    and "r ''posthog_events_per_session_30d__c'' = map_option SfFloat (events_per_session_30d s)"
    and "r ''posthog_insights_per_user_7d__c'' = map_option SfFloat (insights_per_user_7d s)"
    and "r ''posthog_insights_per_user_30d__c'' = map_option SfFloat (insights_per_user_30d s)"
    and "r ''posthog_dashboards_per_user_7d__c'' =
           map_option SfFloat (dashboards_per_user_7d s)"
    and "r ''posthog_dashboards_per_user_30d__c'' =
           map_option SfFloat (dashboards_per_user_30d s)"
  unfolding r_def record_lookup
  by (simp_all add: field_name_table_def sf_values)

lemma record_momentum_fields:
  fixes dedup account_id s r
  defines "r \<equiv> map_of (prepare_salesforce_update_record dedup account_id s)"
  shows "r ''posthog_active_users_7d_momentum__c'' =
           map_option SfFloat (active_users_7d_momentum s)"
    and "r ''posthog_active_users_30d_momentum__c'' =
           map_option SfFloat (active_users_30d_momentum s)"
    and "r ''posthog_sessions_7d_momentum__c'' = map_option SfFloat (sessions_7d_momentum s)"
    and "r ''posthog_sessions_30d_momentum__c'' = map_option SfFloat (sessions_30d_momentum s)"
    and "r ''posthog_eps_7d_momentum__c'' =
           map_option SfFloat (events_per_session_7d_momentum s)"
    and "r ''posthog_eps_30d_momentum__c'' =
           map_option SfFloat (events_per_session_30d_momentum s)"
  unfolding r_def record_lookup
  by (simp_all add: field_name_table_def sf_values)

lemma record_fixed_fields:
  fixes dedup account_id s r
  defines "r \<equiv> map_of (prepare_salesforce_update_record dedup account_id s)"
  shows "r ''Id'' = Some (SfStr account_id)"
    and "r ''posthog_products_7d__c'' =
           Some (SfStr (products_string dedup (products_activated_7d s)))"
    and "r ''posthog_products_30d__c'' =
           Some (SfStr (products_string dedup (products_activated_30d s)))"
  unfolding r_def record_lookup
  by (simp_all add: field_name_table_def)

lemma record_keys:
  "fst ` set (prepare_salesforce_update_record dedup account_id s) \<subseteq>
     set (''Id'' # map fst field_name_table @
          [''posthog_products_7d__c'', ''posthog_products_30d__c''])"
  by (force simp: prepare_salesforce_update_record_def)

lemma record_values_not_null:
  assumes "(k, v) \<in> set (prepare_salesforce_update_record dedup account_id s)"
  shows "v \<noteq> SfNull"
  using assms by (auto simp: prepare_salesforce_update_record_def)

lemma split_comma_word:
  assumes "CHR '','' \<notin> set y"
  shows "split_comma y = [y]"
  using assms by (induction y) auto

lemma split_comma_append:
  assumes "CHR '','' \<notin> set y"
  shows "split_comma (y @ CHR '','' # rest) = y # split_comma rest"
  using assms by (induction y) auto

lemma split_comma_join_comma:
  assumes "ys \<noteq> []" and "\<forall>y \<in> set ys. CHR '','' \<notin> set y"
  shows "split_comma (join_comma ys) = ys"
  using assms
proof (induction ys rule: join_comma.induct)
  case 1
  then show ?case by simp
next
  case (2 x)
  then show ?case by (simp add: split_comma_word)
next
  case (3 x y ys)
  then show ?case by (simp add: split_comma_append del: split_comma.simps)
qed

lemma products_string_sorted:
  "\<exists>ys. sorted ys \<and> set ys = set ps \<and> (if dedup then distinct ys else mset ys = mset ps) \<and>
        products_string dedup ps = join_comma ys"
  by (rule exI[of _ "sort (if dedup then remdups ps else ps)"])
     (simp add: products_string_def)

lemma products_string_split:
  assumes "ps \<noteq> []" and "\<forall>p \<in> set ps. CHR '','' \<notin> set p"
  shows "sorted (split_comma (products_string dedup ps))"
    and "set (split_comma (products_string dedup ps)) = set ps"
proof -
  let ?ys = "sort (if dedup then remdups ps else ps)"
  have "set ?ys = set ps" by simp
  then have ne: "?ys \<noteq> []"
    using assms(1) by (metis set_empty)
  have free: "\<forall>y \<in> set ?ys. CHR '','' \<notin> set y"
    using assms(2) by simp
  have "split_comma (products_string dedup ps) = ?ys"
    unfolding products_string_def by (rule split_comma_join_comma[OF ne free])
  then show "sorted (split_comma (products_string dedup ps))"
    and "set (split_comma (products_string dedup ps)) = set ps"
    by simp_all
qed

lemma products_string_perm:
  assumes "mset ps = mset ps'"
  shows "products_string dedup ps = products_string dedup ps'"
proof -
  have "mset (remdups ps) = mset (remdups ps')"
    using assms by (metis mset_set_set set_mset_mset distinct_remdups set_remdups)
  then have "mset (if dedup then remdups ps else ps) = mset (if dedup then remdups ps' else ps')"
    using assms by simp
  then have "sort (if dedup then remdups ps else ps) = sort (if dedup then remdups ps' else ps')"
    by (intro properties_for_sort) simp_all
  then show ?thesis by (simp add: products_string_def)
qed

text \<open>
  C6. For every report and account identifier, and whether or not the serialization drops
  duplicates: the record holds the account identifier under \<^verbatim>\<open>Id\<close>; each of the four
  counters is present with its value; each of the thirteen nullable fields is present with
  its value when that value is not null and absent when it is null; the record has no
  other key than these and the two product keys, and no null value; the two product lists
  are always present, serialized. The serialization of the empty list is the empty string;
  that of any list is the comma-join of a sorted list of the same products; splitting the
  serialization of a non-empty list of comma-free names at the commas gives back a sorted
  list of the same products; and the serialization does not depend on the order of the
  list.
\<close>

theorem prepare_salesforce_update_record_spec:
  fixes dedup account_id s r
  defines "r \<equiv> map_of (prepare_salesforce_update_record dedup account_id s)"
  shows
  "r ''Id'' = Some (SfStr account_id) \<and>
   r ''posthog_active_users_7d__c'' = Some (SfInt (active_users_7d s)) \<and>
   r ''posthog_active_users_30d__c'' = Some (SfInt (active_users_30d s)) \<and>
   r ''posthog_sessions_7d__c'' = Some (SfInt (sessions_7d s)) \<and>
   r ''posthog_sessions_30d__c'' = Some (SfInt (sessions_30d s)) \<and>
   r ''posthog_events_per_session_7d__c'' = map_option SfFloat (events_per_session_7d s) \<and>
   r ''posthog_events_per_session_30d__c'' = map_option SfFloat (events_per_session_30d s) \<and>
   r ''posthog_insights_per_user_7d__c'' = map_option SfFloat (insights_per_user_7d s) \<and>
   r ''posthog_insights_per_user_30d__c'' = map_option SfFloat (insights_per_user_30d s) \<and>
   r ''posthog_dashboards_per_user_7d__c'' = map_option SfFloat (dashboards_per_user_7d s) \<and>
   r ''posthog_dashboards_per_user_30d__c'' = map_option SfFloat (dashboards_per_user_30d s) \<and>
   r ''posthog_active_users_7d_momentum__c'' =
     map_option SfFloat (active_users_7d_momentum s) \<and>
   r ''posthog_active_users_30d_momentum__c'' =
     map_option SfFloat (active_users_30d_momentum s) \<and>
   r ''posthog_sessions_7d_momentum__c'' = map_option SfFloat (sessions_7d_momentum s) \<and>
   r ''posthog_sessions_30d_momentum__c'' = map_option SfFloat (sessions_30d_momentum s) \<and>
   r ''posthog_eps_7d_momentum__c'' = map_option SfFloat (events_per_session_7d_momentum s) \<and>
   r ''posthog_eps_30d_momentum__c'' =
     map_option SfFloat (events_per_session_30d_momentum s) \<and>
   r ''posthog_last_login_days__c'' = map_option SfInt (days_since_last_login s) \<and>
   r ''posthog_products_7d__c'' =
     Some (SfStr (products_string dedup (products_activated_7d s))) \<and>
   r ''posthog_products_30d__c'' =
     Some (SfStr (products_string dedup (products_activated_30d s))) \<and>
   fst ` set (prepare_salesforce_update_record dedup account_id s) \<subseteq>
     {''Id'', ''posthog_active_users_7d__c'', ''posthog_active_users_30d__c'',
      ''posthog_sessions_7d__c'', ''posthog_sessions_30d__c'',
      ''posthog_events_per_session_7d__c'', ''posthog_events_per_session_30d__c'',
      ''posthog_insights_per_user_7d__c'', ''posthog_insights_per_user_30d__c'',
      ''posthog_dashboards_per_user_7d__c'', ''posthog_dashboards_per_user_30d__c'',
      ''posthog_active_users_7d_momentum__c'', ''posthog_active_users_30d_momentum__c'',
      ''posthog_sessions_7d_momentum__c'', ''posthog_sessions_30d_momentum__c'',
      ''posthog_eps_7d_momentum__c'', ''posthog_eps_30d_momentum__c'',
      ''posthog_last_login_days__c'', ''posthog_products_7d__c'',
      ''posthog_products_30d__c''} \<and>
   (\<forall>(k, v) \<in> set (prepare_salesforce_update_record dedup account_id s). v \<noteq> SfNull) \<and>
   products_string dedup [] = [] \<and>
   (\<exists>ys. sorted ys \<and> set ys = set ps \<and> (if dedup then distinct ys else mset ys = mset ps) \<and>
         products_string dedup ps = join_comma ys) \<and>
   (ps \<noteq> [] \<and> (\<forall>p \<in> set ps. CHR '','' \<notin> set p) \<longrightarrow>
      sorted (split_comma (products_string dedup ps)) \<and>
      set (split_comma (products_string dedup ps)) = set ps) \<and>
   (mset ps = mset ps' \<longrightarrow> products_string dedup ps = products_string dedup ps')"
proof -
  have keys: "fst ` set (prepare_salesforce_update_record dedup account_id s) \<subseteq>
     {''Id'', ''posthog_active_users_7d__c'', ''posthog_active_users_30d__c'',
      ''posthog_sessions_7d__c'', ''posthog_sessions_30d__c'',
      ''posthog_events_per_session_7d__c'', ''posthog_events_per_session_30d__c'',
      ''posthog_insights_per_user_7d__c'', ''posthog_insights_per_user_30d__c'',
      ''posthog_dashboards_per_user_7d__c'', ''posthog_dashboards_per_user_30d__c'',
      ''posthog_active_users_7d_momentum__c'', ''posthog_active_users_30d_momentum__c'',
      ''posthog_sessions_7d_momentum__c'', ''posthog_sessions_30d_momentum__c'',
      ''posthog_eps_7d_momentum__c'', ''posthog_eps_30d_momentum__c'',
      ''posthog_last_login_days__c'', ''posthog_products_7d__c'',
      ''posthog_products_30d__c''}"
    using record_keys[of dedup account_id s] unfolding field_names
    by (simp only: append.simps list.set)
  have nonnull: "\<forall>(k, v) \<in> set (prepare_salesforce_update_record dedup account_id s).
      v \<noteq> SfNull"
    using record_values_not_null by blast
  have empty: "products_string dedup [] = []" by (simp add: products_string_def)
  have split: "ps \<noteq> [] \<and> (\<forall>p \<in> set ps. CHR '','' \<notin> set p) \<longrightarrow>
      sorted (split_comma (products_string dedup ps)) \<and>
      set (split_comma (products_string dedup ps)) = set ps"
    using products_string_split by blast
  have perm: "mset ps = mset ps' \<longrightarrow> products_string dedup ps = products_string dedup ps'"
    using products_string_perm by blast
  show ?thesis
    unfolding r_def
    by (intro conjI record_fixed_fields record_int_fields record_float_fields
        record_momentum_fields keys nonnull empty products_string_sorted split perm)
qed

theorem prepare_salesforce_update_record_spec_witness:
  "map_of (prepare_salesforce_update_record False ''001ABC123'' example_signals) ''Id'' =
     Some (SfStr ''001ABC123'') \<and>
   map_of (prepare_salesforce_update_record False ''001ABC123'' example_signals)
     ''posthog_active_users_7d__c'' = Some (SfInt 100) \<and>
   map_of (prepare_salesforce_update_record False ''001ABC123'' example_signals)
     ''posthog_events_per_session_7d__c'' = Some (SfFloat (21 / 2)) \<and>
   map_of (prepare_salesforce_update_record False ''001ABC123'' example_signals)
     ''posthog_events_per_session_30d__c'' = None \<and>
   map_of (prepare_salesforce_update_record False ''001ABC123'' example_signals)
     ''posthog_active_users_7d_momentum__c'' = None \<and>
   map_of (prepare_salesforce_update_record False ''001ABC123'' example_signals)
     ''posthog_last_login_days__c'' = Some (SfInt 3) \<and>
   map_of (prepare_salesforce_update_record False ''001ABC123'' example_signals)
     ''posthog_products_7d__c'' = Some (SfStr []) \<and>
   map_of (prepare_salesforce_update_record False ''001ABC123'' example_signals)
     ''posthog_products_30d__c'' = Some (SfStr ''analytics,feature_flags,recordings'') \<and>
   split_comma (products_string False [''analytics'', ''recordings'', ''feature_flags'']) =
     [''analytics'', ''feature_flags'', ''recordings''] \<and>
   products_string False [''feature_flags'', ''recordings'', ''analytics''] =
     products_string False [''analytics'', ''recordings'', ''feature_flags''] \<and>
   products_string True [''feature_flags'', ''analytics'', ''analytics''] =
     ''analytics,feature_flags'' \<and>
   set (split_comma (products_string True [''feature_flags'', ''analytics'', ''analytics''])) =
     {''analytics'', ''feature_flags''}"
proof -
  note spec = prepare_salesforce_update_record_spec
    [where dedup = False and account_id = "''001ABC123''" and s = example_signals
       and ps = "[''analytics'', ''recordings'', ''feature_flags'']"
       and ps' = "[''feature_flags'', ''recordings'', ''analytics'']"]
  note spec' = prepare_salesforce_update_record_spec
    [where dedup = True and account_id = "''001ABC123''" and s = example_signals
       and ps = "[''feature_flags'', ''analytics'', ''analytics'']"
       and ps' = "[''analytics'', ''feature_flags'', ''analytics'']"]
  have vals: "active_users_7d example_signals = 100"
    "events_per_session_7d example_signals = Some (21 / 2)"
    "events_per_session_30d example_signals = None"
    "active_users_7d_momentum example_signals = None"
    "days_since_last_login example_signals = Some 3"
    "products_activated_7d example_signals = []"
    "products_activated_30d example_signals = [''analytics'', ''recordings'', ''feature_flags'']"
    by (simp_all add: example_signals_def UsageSignals_default_def)
  have s30: "products_string False [''analytics'', ''recordings'', ''feature_flags''] =
      ''analytics,feature_flags,recordings''"
    by (simp add: products_string_def)
  have sd: "products_string True [''feature_flags'', ''analytics'', ''analytics''] =
      ''analytics,feature_flags''"
    by (simp add: products_string_def)
  have sp: "split_comma ''analytics,feature_flags,recordings'' =
      [''analytics'', ''feature_flags'', ''recordings'']"
    by simp
  have perm: "mset [''analytics'', ''recordings'', ''feature_flags''] =
      mset [''feature_flags'', ''recordings'', ''analytics'']"
    by simp
  have free: "[''feature_flags'', ''analytics'', ''analytics''] \<noteq> [] \<and>
      (\<forall>p \<in> set [''feature_flags'', ''analytics'', ''analytics'']. CHR '','' \<notin> set p)"
    by simp
  have fields:
    "map_of (prepare_salesforce_update_record False ''001ABC123'' example_signals) ''Id'' =
       Some (SfStr ''001ABC123'')"
    "map_of (prepare_salesforce_update_record False ''001ABC123'' example_signals)
       ''posthog_active_users_7d__c'' = Some (SfInt 100)"
    "map_of (prepare_salesforce_update_record False ''001ABC123'' example_signals)
       ''posthog_events_per_session_7d__c'' = Some (SfFloat (21 / 2))"
    "map_of (prepare_salesforce_update_record False ''001ABC123'' example_signals)
       ''posthog_events_per_session_30d__c'' = None"
    "map_of (prepare_salesforce_update_record False ''001ABC123'' example_signals)
       ''posthog_active_users_7d_momentum__c'' = None"
    "map_of (prepare_salesforce_update_record False ''001ABC123'' example_signals)
       ''posthog_last_login_days__c'' = Some (SfInt 3)"
    "map_of (prepare_salesforce_update_record False ''001ABC123'' example_signals)
       ''posthog_products_7d__c'' = Some (SfStr [])"
    "map_of (prepare_salesforce_update_record False ''001ABC123'' example_signals)
       ''posthog_products_30d__c'' = Some (SfStr ''analytics,feature_flags,recordings'')"
    using spec by (simp_all add: vals s30)
  have same: "products_string False [''feature_flags'', ''recordings'', ''analytics''] =
     products_string False [''analytics'', ''recordings'', ''feature_flags'']"
    using spec perm by simp
  have dd: "set (split_comma (products_string True
        [''feature_flags'', ''analytics'', ''analytics''])) =
     set [''feature_flags'', ''analytics'', ''analytics'']"
    using spec' free by blast
  show ?thesis
    using fields same dd by (simp add: s30 sd sp insert_commute)
qed

section \<open>CRM bulk update\<close>

text \<open>
  C7. For every batch of updates, the bulk-update activity returns a number and never
  raises: zero for an empty batch and when the bulk call raises, and otherwise the number
  of per-record results marked successful; a record's result adds one when it succeeded
  and nothing when it failed, whatever the other records' results are.
\<close>

theorem update_salesforce_usage_activity_spec:
  "(\<exists>n. update_salesforce_usage_activity dedup bulk_update updates = Inr n) \<and>
   (updates = [] \<longrightarrow> update_salesforce_usage_activity dedup bulk_update updates = Inr 0) \<and>
   (updates \<noteq> [] \<and>
    bulk_update (map (\<lambda>u. prepare_salesforce_update_record dedup (salesforce_account_id u) (signals u))
                  updates) = BulkRaised e \<longrightarrow>
      update_salesforce_usage_activity dedup bulk_update updates = Inr 0) \<and>
   (updates \<noteq> [] \<and>
    bulk_update (map (\<lambda>u. prepare_salesforce_update_record dedup (salesforce_account_id u) (signals u))
                  updates) = BulkReturned results \<longrightarrow>
      update_salesforce_usage_activity dedup bulk_update updates =
        Inr (length (filter success results))) \<and>
   (updates \<noteq> [] \<and>
    bulk_update (map (\<lambda>u. prepare_salesforce_update_record dedup (salesforce_account_id u) (signals u))
                  updates) = BulkReturned (before @ r # after) \<longrightarrow>
      update_salesforce_usage_activity dedup bulk_update updates =
        Inr ((if success r then 1 else 0) + length (filter success (before @ after))))"
proof -
  have total: "\<exists>n. update_salesforce_usage_activity dedup bulk_update updates = Inr n"
    by (simp add: update_salesforce_usage_activity_def Let_def split: bulk_outcome.splits)
  show ?thesis
    using total
    by (simp add: update_salesforce_usage_activity_def Let_def)
qed

theorem update_salesforce_usage_activity_spec_witness:
  "update_salesforce_usage_activity False (\<lambda>records. BulkRaised ''Salesforce API error'')
      example_updates = Inr 0 \<and>
   update_salesforce_usage_activity True
     (\<lambda>records.
        BulkReturned
          [\<lparr>result_id = ''001ABC'', success = True, errors = []\<rparr>,
           \<lparr>result_id = ''001DEF'', success = False, errors = [''Field not found'']\<rparr>,
           \<lparr>result_id = ''001GHI'', success = True, errors = []\<rparr>])
     example_updates = Inr 2 \<and>
   update_salesforce_usage_activity False (\<lambda>records. BulkRaised ''Salesforce API error'') [] = Inr 0"
proof -
  have ne: "example_updates \<noteq> []" by (simp add: example_updates_def)
  let ?ok = "\<lambda>records :: (string \<times> sf_value) list list.
        BulkReturned
          [\<lparr>result_id = ''001ABC'', success = True, errors = []\<rparr>,
           \<lparr>result_id = ''001DEF'', success = False, errors = [''Field not found'']\<rparr>,
           \<lparr>result_id = ''001GHI'', success = True, errors = []\<rparr>]"
  show ?thesis
    using ne
      update_salesforce_usage_activity_spec
        [where bulk_update = "\<lambda>records. BulkRaised ''Salesforce API error''"
           and updates = example_updates and e = "''Salesforce API error''"]
      update_salesforce_usage_activity_spec
        [where bulk_update = "\<lambda>records. BulkRaised ''Salesforce API error''"
           and updates = "[]"]
      update_salesforce_usage_activity_spec
        [where bulk_update = ?ok and updates = example_updates
           and results = "[\<lparr>result_id = ''001ABC'', success = True, errors = []\<rparr>,
           \<lparr>result_id = ''001DEF'', success = False, errors = [''Field not found'']\<rparr>,
           \<lparr>result_id = ''001GHI'', success = True, errors = []\<rparr>]"
           and before = "[\<lparr>result_id = ''001ABC'', success = True, errors = []\<rparr>]"
           and r = "\<lparr>result_id = ''001DEF'', success = False, errors = [''Field not found'']\<rparr>"
           and after = "[\<lparr>result_id = ''001GHI'', success = True, errors = []\<rparr>]"]
    by simp
qed

section \<open>Toolbar authorization: a state is exchanged at most once\<close>

















end
